theory Spec2Isabelle
  imports Complex_Main "HOL-Library.AList"
begin

section \<open>Data model (models.py)\<close>

text \<open>
  Python floats are modelled as \<^typ>\<open>real\<close>: every statement below is about the exact
  arithmetic the code writes, not about IEEE rounding.  A Python dict is an association
  list read with \<^const>\<open>map_of\<close> and written with \<open>AList.update\<close> (which keeps the
  position of an existing key and appends a new one, as a dict does).  Where two classes
  of the source share a field name, the field carries a short prefix of its class.

  A \<open>datetime\<close> is the record of what the code observes of it: its position on the time
  line in seconds (\<open>epoch\<close>, read by subtraction, \<open>total_seconds\<close> and \<open>timestamp()\<close>), its
  \<open>hour\<close>, its \<open>weekday()\<close>, the triple year, month, day that \<open>strftime('%Y-%m-%d')\<close>
  prints, and whether it carries a timezone (\<open>tz_aware\<close>).  \<open>Transaction.__post_init__\<close>
  produces both kinds: \<open>datetime.now()\<close> is naive, an ISO string ending in \<open>Z\<close> parses
  to an aware one.
\<close>

datatype error = TypeError | AttributeError | ZeroDivisionError | ValueError | OtherError string

record datetime =
  epoch :: real
  hour :: int
  weekday :: int
  ymd :: "int \<times> int \<times> int"
  tz_aware :: bool

record Location =
  lat :: real
  lng :: real
  country :: "string option"
  city :: "string option"
  state :: "string option"

record Transaction =
  tx_id :: string
  user_id :: string
  amount :: real
  currency :: string
  timestamp :: datetime
  location :: "Location option"
  merchant_id :: "string option"
  merchant_category :: "string option"
  payment_method :: "string option"
  device_id :: "string option"
  ip_address :: "string option"
  user_agent :: "string option"
  metadata :: "(string \<times> string) list option"

record FraudResult =
  transaction_id :: string
  risk_score :: real
  is_fraudulent :: bool
  confidence :: real
  triggered_rules :: "string list"
  recommendations :: "string list"

record DetectionRule =
  name :: string
  weight :: real
  threshold :: real
  enabled :: bool

record FraudDetectorConfig =
  rules :: "string list"
  thresholds :: "(string \<times> real) list"
  global_threshold :: real
  enable_logging :: bool
  custom_rules :: "DetectionRule list option"

text \<open>Truthiness of an optional string: \<open>None\<close> and the empty string are falsy.\<close>

definition truthy :: "string option \<Rightarrow> bool" where
  "truthy s = (case s of None \<Rightarrow> False | Some v \<Rightarrow> v \<noteq> [])"

text \<open>\<open>x or d\<close> on an optional string.\<close>

definition or_else :: "string option \<Rightarrow> string \<Rightarrow> string" where
  "or_else s d = (case s of None \<Rightarrow> d | Some v \<Rightarrow> if v = [] then d else v)"

text \<open>\<open>transaction.metadata.get(k) if transaction.metadata else None\<close>\<close>

definition metadata_get :: "Transaction \<Rightarrow> string \<Rightarrow> string option" where
  "metadata_get tx k =
     (case metadata tx of None \<Rightarrow> None
      | Some md \<Rightarrow> if md = [] then None else map_of md k)"

text \<open>Python's \<open>/\<close>: a zero divisor raises.\<close>

definition truediv :: "real \<Rightarrow> real \<Rightarrow> error + real" where
  "truediv a b = (if b = 0 then Inl ZeroDivisionError else Inr (a / b))"

text \<open>
  Subtraction of two datetimes, read through \<open>total_seconds()\<close>: Python raises
  \<open>TypeError\<close> when one operand is naive and the other aware.
\<close>

definition dt_sub :: "datetime \<Rightarrow> datetime \<Rightarrow> error + real" where
  "dt_sub a b =
     (if tz_aware a = tz_aware b then Inr (epoch a - epoch b) else Inl TypeError)"

definition bind_res :: "error + 'a \<Rightarrow> ('a \<Rightarrow> error + 'b) \<Rightarrow> error + 'b" where
  "bind_res r f = (case r of Inl e \<Rightarrow> Inl e | Inr v \<Rightarrow> f v)"

section \<open>The orchestrator (fraud_detector.py)\<close>

text \<open>
  A signal is what \<open>await algorithm.analyze(transaction, rule)\<close> gives in the
  algorithm's current state: a score, or the exception it raised.  The registry
  \<open>self.rules\<close> has one entry per name, so one call of \<open>FraudDetector.analyze\<close> invokes
  each algorithm at most once and its result depends on the algorithms only through
  these outcomes.  The \<open>details\<close> of the result (processing time, wall-clock timestamp)
  and the logging are left out.
\<close>

type_synonym signal = "Transaction \<Rightarrow> DetectionRule \<Rightarrow> error + real"

record FraudDetector =
  det_config :: FraudDetectorConfig
  det_algorithms :: "string \<rightharpoonup> signal"
  det_rules :: "(string \<times> DetectionRule) list"

definition default_rule :: "FraudDetectorConfig \<Rightarrow> string \<Rightarrow> real \<Rightarrow> real \<Rightarrow> DetectionRule" where
  "default_rule cfg n w th =
     \<lparr>name = n, weight = w,
      threshold = (case map_of (thresholds cfg) n of None \<Rightarrow> th | Some t \<Rightarrow> t),
      enabled = (n \<in> set (rules cfg))\<rparr>"

definition initialize_rules :: "FraudDetectorConfig \<Rightarrow> (string \<times> DetectionRule) list" where
  "initialize_rules cfg =
     (let base =
        [(''velocity'', default_rule cfg ''velocity'' 0.15 0.8),
         (''amount'', default_rule cfg ''amount'' 0.15 0.9),
         (''location'', default_rule cfg ''location'' 0.15 0.7),
         (''device'', default_rule cfg ''device'' 0.15 0.8),
         (''time'', default_rule cfg ''time'' 0.10 0.6),
         (''merchant'', default_rule cfg ''merchant'' 0.15 0.7),
         (''behavioral'', default_rule cfg ''behavioral'' 0.10 0.6),
         (''network'', default_rule cfg ''network'' 0.10 0.8),
         (''ml'', default_rule cfg ''ml'' 0.20 0.5)]
      in case custom_rules cfg of
           None \<Rightarrow> base
         | Some crs \<Rightarrow> foldl (\<lambda>rs r. AList.update (name r) r rs) base crs)"

record accum =
  acc_triggered :: "string list"
  total_weighted_score :: real
  total_weight :: real

text \<open>One iteration of the loop over \<open>self.rules.items()\<close>, with its \<open>try\<close>/\<open>except\<close>.\<close>

fun process_rule :: "(string \<rightharpoonup> signal) \<Rightarrow> Transaction \<Rightarrow> accum \<Rightarrow> string \<times> DetectionRule \<Rightarrow> accum" where
  "process_rule algs tx a (rule_name, rule) =
     (if \<not> enabled rule then a
      else case algs rule_name of
        None \<Rightarrow> a
      | Some algorithm \<Rightarrow>
          (case algorithm tx rule of
             Inl err \<Rightarrow> a
           | Inr score \<Rightarrow>
               \<lparr>acc_triggered =
                  (if score \<ge> threshold rule then acc_triggered a @ [rule_name]
                   else acc_triggered a),
                total_weighted_score = total_weighted_score a + score * weight rule,
                total_weight = total_weight a + weight rule\<rparr>))"

definition generate_recommendations :: "string list \<Rightarrow> real \<Rightarrow> real \<Rightarrow> string list" where
  "generate_recommendations trig rs conf =
     (if ''velocity'' \<in> set trig
        then [''Consider implementing velocity-based transaction limits''] else []) @
     (if ''amount'' \<in> set trig
        then [''Review transaction amount thresholds and user spending patterns''] else []) @
     (if ''location'' \<in> set trig
        then [''Verify transaction location and check for unusual travel patterns''] else []) @
     (if rs > 0.8
        then [''High risk transaction - consider manual review or additional verification''] else []) @
     (if conf < 0.5
        then [''Low confidence score - consider gathering additional transaction data''] else [])"

definition analyze :: "FraudDetector \<Rightarrow> Transaction \<Rightarrow> error + FraudResult" where
  "analyze det tx =
     (let a = foldl (process_rule (det_algorithms det) tx)
                \<lparr>acc_triggered = [], total_weighted_score = 0, total_weight = 0\<rparr>
                (det_rules det)
      in bind_res (if total_weight a > 0
                   then truediv (total_weighted_score a) (total_weight a) else Inr 0)
           (\<lambda>score.
            bind_res (if rules (det_config det) \<noteq> []
                      then bind_res (truediv (real (length (acc_triggered a)))
                                       (real (length (rules (det_config det)))))
                             (\<lambda>q. Inr (min q 1))
                      else Inr 0)
              (\<lambda>conf.
                 Inr \<lparr>transaction_id = tx_id tx,
                      risk_score = min score 1,
                      is_fraudulent = (score \<ge> global_threshold (det_config det)),
                      confidence = conf,
                      triggered_rules = acc_triggered a,
                      recommendations =
                        generate_recommendations (acc_triggered a) (min score 1) conf\<rparr>)))"

text \<open>
  The rules that contribute to one call, in registry order: enabled, with a registered
  algorithm, whose call returned a score.  Each entry carries that score.
\<close>

fun contributing :: "(string \<rightharpoonup> signal) \<Rightarrow> Transaction \<Rightarrow> (string \<times> DetectionRule) list
    \<Rightarrow> (string \<times> DetectionRule \<times> real) list" where
  "contributing algs tx [] = []"
| "contributing algs tx ((n, r) # rs) =
     (if enabled r
      then (case algs n of
              None \<Rightarrow> []
            | Some alg \<Rightarrow> (case alg tx r of Inl e \<Rightarrow> [] | Inr s \<Rightarrow> [(n, r, s)]))
      else []) @ contributing algs tx rs"

definition weighted_sum :: "(string \<times> DetectionRule \<times> real) list \<Rightarrow> real" where
  "weighted_sum cs = (\<Sum>(n, r, s) \<leftarrow> cs. s * weight r)"

definition weight_sum :: "(string \<times> DetectionRule \<times> real) list \<Rightarrow> real" where
  "weight_sum cs = (\<Sum>(n, r, s) \<leftarrow> cs. weight r)"

definition triggered_of :: "(string \<times> DetectionRule \<times> real) list \<Rightarrow> string list" where
  "triggered_of cs = map fst (filter (\<lambda>(n, r, s). s \<ge> threshold r) cs)"

text \<open>The aggregate and the confidence, as functions of the contributing rules.\<close>

definition aggregate :: "(string \<times> DetectionRule \<times> real) list \<Rightarrow> real" where
  "aggregate cs = (if weight_sum cs > 0 then weighted_sum cs / weight_sum cs else 0)"

definition confidence_of :: "FraudDetectorConfig \<Rightarrow> (string \<times> DetectionRule \<times> real) list \<Rightarrow> real" where
  "confidence_of cfg cs =
     (if rules cfg = [] then 0
      else min (real (length (triggered_of cs)) / real (length (rules cfg))) 1)"


section \<open>Velocity signal (algorithms/velocity.py)\<close>

text \<open>
  Every signal returns its outcome together with its state after the call, so that a
  mutation made before an exception is raised is kept.  What the code reads from the
  wall clock (\<open>time.time()\<close>, \<open>datetime.now()\<close>) is an argument of the model.
\<close>

record VelocityConfig =
  time_window :: int
  max_transactions :: int
  max_amount :: real

record VelocityAlgorithm =
  vel_config :: VelocityConfig
  transaction_history :: "(string \<times> Transaction list) list"

definition VelocityAlgorithm_init :: "VelocityConfig \<Rightarrow> VelocityAlgorithm" where
  "VelocityAlgorithm_init cfg = \<lparr>vel_config = cfg, transaction_history = []\<rparr>"

text \<open>\<open>self.transaction_history.get(user_id, [])\<close>\<close>

definition user_history_of :: "VelocityAlgorithm \<Rightarrow> string \<Rightarrow> Transaction list" where
  "user_history_of st uid =
     (case map_of (transaction_history st) uid of None \<Rightarrow> [] | Some h \<Rightarrow> h)"

text \<open>\<open>_add_transaction\<close>; \<open>wall\<close> is \<open>time.time()\<close>.\<close>

definition add_transaction :: "real \<Rightarrow> VelocityAlgorithm \<Rightarrow> Transaction \<Rightarrow> VelocityAlgorithm" where
  "add_transaction wall st tx =
     (let appended = user_history_of st (user_id tx) @ [tx];
          cutoff_time = wall - real_of_int (time_window (vel_config st) * 60)
      in st\<lparr>transaction_history :=
              AList.update (user_id tx)
                (filter (\<lambda>t. epoch (timestamp t) > cutoff_time) appended)
                (transaction_history st)\<rparr>)"

text \<open>
  The list comprehension of \<open>analyze\<close>: it subtracts the timestamp of every stored
  event of the user from \<open>now\<close>, so one event of the other timezone kind makes it raise.
\<close>

fun filter_recent :: "datetime \<Rightarrow> real \<Rightarrow> Transaction list \<Rightarrow> error + Transaction list" where
  "filter_recent now time_window_ms [] = Inr []"
| "filter_recent now time_window_ms (t # ts) =
     bind_res (dt_sub now (timestamp t)) (\<lambda>diff.
       bind_res (filter_recent now time_window_ms ts) (\<lambda>rest.
         Inr (if diff * 1000 \<le> time_window_ms then t # rest else rest)))"

definition recent_transactions :: "VelocityAlgorithm \<Rightarrow> Transaction \<Rightarrow> error + Transaction list" where
  "recent_transactions st tx =
     (let now = timestamp tx;
          time_window_ms = real_of_int (time_window (vel_config st) * 60 * 1000)
      in filter_recent now time_window_ms (user_history_of st (user_id tx)))"

definition VelocityAlgorithm_analyze ::
    "real \<Rightarrow> VelocityAlgorithm \<Rightarrow> Transaction \<Rightarrow> (error + real) \<times> VelocityAlgorithm" where
  "VelocityAlgorithm_analyze wall st tx =
     (case recent_transactions st tx of
        Inl e \<Rightarrow> (Inl e, st)
      | Inr recent \<Rightarrow>
          (let transaction_count = length recent + 1;
               total_amount = sum_list (map amount recent) + amount tx
           in case truediv (real transaction_count)
                     (real_of_int (max_transactions (vel_config st))) of
                Inl e \<Rightarrow> (Inl e, st)
              | Inr c \<Rightarrow>
                  (case truediv total_amount (max_amount (vel_config st)) of
                     Inl e \<Rightarrow> (Inl e, st)
                   | Inr a \<Rightarrow>
                       (let count_risk = min c 1;
                            amount_risk = min a 1;
                            velocity_score = (count_risk + amount_risk) / 2
                        in (Inr (min velocity_score 1), add_transaction wall st tx)))))"

text \<open>
  What the filter keeps when it does not raise: the stored events of the transaction's
  user that are at most \<open>time_window\<close> minutes older than the transaction.  The bound is
  on one side only: an event stamped later than the transaction has a negative age and
  is kept.  \<open>same_kind\<close> says that no stored event of the user makes the subtraction
  raise.
\<close>

definition window_events :: "VelocityAlgorithm \<Rightarrow> Transaction \<Rightarrow> Transaction list" where
  "window_events st tx =
     filter (\<lambda>e. (epoch (timestamp tx) - epoch (timestamp e)) / 60
                    \<le> real_of_int (time_window (vel_config st)))
       (user_history_of st (user_id tx))"

definition same_kind :: "VelocityAlgorithm \<Rightarrow> Transaction \<Rightarrow> bool" where
  "same_kind st tx =
     list_all (\<lambda>e. tz_aware (timestamp e) = tz_aware (timestamp tx))
       (user_history_of st (user_id tx))"

definition count_risk_of :: "VelocityAlgorithm \<Rightarrow> Transaction \<Rightarrow> real" where
  "count_risk_of st tx =
     min ((real (length (window_events st tx)) + 1)
            / real_of_int (max_transactions (vel_config st))) 1"

definition amount_risk_of :: "VelocityAlgorithm \<Rightarrow> Transaction \<Rightarrow> real" where
  "amount_risk_of st tx =
     min ((sum_list (map amount (window_events st tx)) + amount tx)
            / max_amount (vel_config st)) 1"

text \<open>
  The trailing window in the words of the specification, the interval of length
  \<open>time_window\<close> that ends at the transaction: the stored events of the user stamped
  not later than the transaction and at most \<open>time_window\<close> minutes before it.
  \<open>claimed_contribution\<close> is the contribution the specification states, the average of
  the two risks over these events.
\<close>

definition trailing_window_events :: "VelocityAlgorithm \<Rightarrow> Transaction \<Rightarrow> Transaction list" where
  "trailing_window_events st tx =
     filter (\<lambda>e. epoch (timestamp e) \<le> epoch (timestamp tx) \<and>
                  (epoch (timestamp tx) - epoch (timestamp e)) / 60
                    \<le> real_of_int (time_window (vel_config st)))
       (user_history_of st (user_id tx))"

definition claimed_contribution :: "VelocityAlgorithm \<Rightarrow> Transaction \<Rightarrow> real" where
  "claimed_contribution st tx =
     (min ((real (length (trailing_window_events st tx)) + 1)
             / real_of_int (max_transactions (vel_config st))) 1 +
      min ((sum_list (map amount (trailing_window_events st tx)) + amount tx)
             / max_amount (vel_config st)) 1) / 2"

text \<open>The configuration \<open>FraudDetector._initialize_algorithms\<close> gives the velocity signal.\<close>

definition detector_velocity_config :: VelocityConfig where
  "detector_velocity_config = \<lparr>time_window = 60, max_transactions = 10, max_amount = 5000\<rparr>"

section \<open>Amount signal (algorithms/amount.py)\<close>

record AmountConfig =
  suspicious_threshold :: real
  high_risk_threshold :: real
  currency_multipliers :: "(string \<times> real) list option"

definition AmountAlgorithm_init :: "AmountConfig \<Rightarrow> AmountConfig" where
  "AmountAlgorithm_init cfg =
     (case currency_multipliers cfg of
        None \<Rightarrow> cfg\<lparr>currency_multipliers :=
                      Some [(''USD'', 1.0), (''EUR'', 1.1), (''GBP'', 1.3), (''JPY'', 0.007)]\<rparr>
      | Some m \<Rightarrow> cfg)"

text \<open>The three bands, as a function of the normalized amount.\<close>

definition amount_bands :: "AmountConfig \<Rightarrow> real \<Rightarrow> error + real" where
  "amount_bands cfg normalized_amount =
     (if normalized_amount \<ge> high_risk_threshold cfg then Inr 1.0
      else if normalized_amount \<ge> suspicious_threshold cfg then
        (let range_val = high_risk_threshold cfg - suspicious_threshold cfg;
             position = normalized_amount - suspicious_threshold cfg
         in bind_res (truediv position range_val) (\<lambda>q. Inr (0.5 + q * 0.5)))
      else bind_res (truediv normalized_amount (suspicious_threshold cfg))
             (\<lambda>q. Inr (q * 0.5)))"

definition normalized_amount_of :: "(string \<times> real) list \<Rightarrow> Transaction \<Rightarrow> real" where
  "normalized_amount_of mults tx =
     (let currency = (if currency tx = [] then ''USD'' else currency tx);
          multiplier = (case map_of mults currency of None \<Rightarrow> 1.0 | Some m \<Rightarrow> m)
      in amount tx * multiplier)"

definition AmountAlgorithm_analyze :: "AmountConfig \<Rightarrow> Transaction \<Rightarrow> error + real" where
  "AmountAlgorithm_analyze cfg tx =
     (case currency_multipliers cfg of
        None \<Rightarrow> Inl AttributeError
      | Some mults \<Rightarrow> amount_bands cfg (normalized_amount_of mults tx))"

text \<open>The score of a normalized amount, where the bands return one.\<close>

definition amount_score :: "AmountConfig \<Rightarrow> real \<Rightarrow> real" where
  "amount_score cfg n = (case amount_bands cfg n of Inl e \<Rightarrow> 0 | Inr v \<Rightarrow> v)"

definition detector_amount_config :: AmountConfig where
  "detector_amount_config =
     \<lparr>suspicious_threshold = 1000, high_risk_threshold = 5000,
      currency_multipliers =
        Some [(''USD'', 1.0), (''EUR'', 1.1), (''GBP'', 1.3), (''JPY'', 0.007)]\<rparr>"

section \<open>Location signal (algorithms/location.py)\<close>

record LocationConfig =
  max_distance_km :: real
  suspicious_distance_km :: real
  time_window_minutes :: int
  enable_geo_fencing :: bool
  trusted_locations :: "Location list option"

record LocationAlgorithm =
  loc_config :: LocationConfig
  user_locations :: "(string \<times> Location list) list"

definition LocationAlgorithm_init :: "LocationConfig \<Rightarrow> LocationAlgorithm" where
  "LocationAlgorithm_init cfg =
     \<lparr>loc_config =
        (case trusted_locations cfg of
           None \<Rightarrow> cfg\<lparr>trusted_locations := Some []\<rparr>
         | Some t \<Rightarrow> cfg),
      user_locations = []\<rparr>"

definition deg2rad :: "real \<Rightarrow> real" where
  "deg2rad deg = deg * (pi / 180)"

text \<open>\<open>math.atan2\<close> and \<open>math.sqrt\<close> (which raises on a negative argument).\<close>

definition atan2 :: "real \<Rightarrow> real \<Rightarrow> real" where
  "atan2 y x =
     (if x > 0 then arctan (y / x)
      else if x < 0 then (if y \<ge> 0 then arctan (y / x) + pi else arctan (y / x) - pi)
      else if y > 0 then pi / 2
      else if y < 0 then - (pi / 2)
      else 0)"

definition math_sqrt :: "real \<Rightarrow> error + real" where
  "math_sqrt x = (if x < 0 then Inl ValueError else Inr (sqrt x))"

definition calculate_distance :: "Location \<Rightarrow> Location \<Rightarrow> error + real" where
  "calculate_distance loc1 loc2 =
     (let R = 6371;
          d_lat = deg2rad (lat loc2 - lat loc1);
          d_lon = deg2rad (lng loc2 - lng loc1);
          a = sin (d_lat / 2) * sin (d_lat / 2) +
              cos (deg2rad (lat loc1)) * cos (deg2rad (lat loc2)) *
              sin (d_lon / 2) * sin (d_lon / 2)
      in bind_res (math_sqrt a) (\<lambda>sa.
         bind_res (math_sqrt (1 - a)) (\<lambda>sb.
           Inr (R * (2 * atan2 sa sb)))))"

text \<open>The distances of a generator expression, up to the first one that raises.\<close>

fun distances :: "Location \<Rightarrow> Location list \<Rightarrow> error + real list" where
  "distances cur [] = Inr []"
| "distances cur (l # ls) =
     bind_res (calculate_distance cur l) (\<lambda>d.
       bind_res (distances cur ls) (\<lambda>ds. Inr (d # ds)))"

text \<open>
  \<open>_get_recent_locations\<close> keeps a stored location only if it has an attribute
  \<open>timestamp\<close>.  The dataclass \<open>Location\<close> has the fields \<open>lat\<close>, \<open>lng\<close>, \<open>country\<close>,
  \<open>city\<close> and \<open>state\<close> and no other, so \<open>hasattr(loc, 'timestamp')\<close> is false of every
  instance and the second conjunct of the filter is never evaluated.
\<close>

definition hasattr_timestamp :: "Location \<Rightarrow> bool" where
  "hasattr_timestamp loc = False"

definition get_recent_locations :: "LocationAlgorithm \<Rightarrow> string \<Rightarrow> datetime \<Rightarrow> Location list" where
  "get_recent_locations st uid current_time =
     filter hasattr_timestamp
       (case map_of (user_locations st) uid of None \<Rightarrow> [] | Some ls \<Rightarrow> ls)"

text \<open>
  \<open>_add_location\<close> first creates the user's empty list, then calls the constructor
  \<open>Location(lat=..., lng=..., country=..., city=..., state=..., timestamp=datetime.now())\<close>.
  The dataclass takes no keyword \<open>timestamp\<close>: the call raises \<open>TypeError\<close>, and the
  statements after it (the append and the pruning) are never reached.
\<close>

definition add_location ::
    "LocationAlgorithm \<Rightarrow> string \<Rightarrow> Location \<Rightarrow> (error + unit) \<times> LocationAlgorithm" where
  "add_location st uid loc =
     (let st1 = (case map_of (user_locations st) uid of
                   None \<Rightarrow> st\<lparr>user_locations := user_locations st @ [(uid, [])]\<rparr>
                 | Some ls \<Rightarrow> st)
      in (Inl TypeError, st1))"

text \<open>The band of the minimum distance.\<close>

definition distance_bands :: "LocationConfig \<Rightarrow> real \<Rightarrow> error + real" where
  "distance_bands cfg min_distance =
     (if min_distance > max_distance_km cfg then Inr 1.0
      else if min_distance > suspicious_distance_km cfg then
        (let range_val = max_distance_km cfg - suspicious_distance_km cfg;
             position = min_distance - suspicious_distance_km cfg
         in bind_res (truediv position range_val) (\<lambda>q. Inr (0.5 + q * 0.5)))
      else bind_res (truediv min_distance (suspicious_distance_km cfg))
             (\<lambda>q. Inr (q * 0.5)))"

definition history_risk :: "LocationConfig \<Rightarrow> Location \<Rightarrow> Location list \<Rightarrow> error + real" where
  "history_risk cfg current_location recent_locations =
     (if recent_locations = [] then Inr 0.0
      else bind_res (distances current_location recent_locations) (\<lambda>ds.
             distance_bands cfg (Min (set ds))))"

text \<open>\<open>any(... <= 1.0 for trusted_loc in trusted_locations)\<close>: stops at the first hit.\<close>

fun in_trusted_location :: "Location \<Rightarrow> Location list \<Rightarrow> error + bool" where
  "in_trusted_location cur [] = Inr False"
| "in_trusted_location cur (t # ts) =
     bind_res (calculate_distance cur t) (\<lambda>d.
       if d \<le> 1.0 then Inr True else in_trusted_location cur ts)"

definition geo_fence :: "LocationConfig \<Rightarrow> Location \<Rightarrow> real \<Rightarrow> error + real" where
  "geo_fence cfg current_location risk =
     (case trusted_locations cfg of
        None \<Rightarrow> Inr risk
      | Some ts \<Rightarrow>
          if enable_geo_fencing cfg \<and> ts \<noteq> [] then
            bind_res (in_trusted_location current_location ts) (\<lambda>hit.
              Inr (if hit then min risk 0.2 else risk))
          else Inr risk)"

definition LocationAlgorithm_analyze ::
    "LocationAlgorithm \<Rightarrow> Transaction \<Rightarrow> (error + real) \<times> LocationAlgorithm" where
  "LocationAlgorithm_analyze st tx =
     (case location tx of
        None \<Rightarrow> (Inr 0.0, st)
      | Some current_location \<Rightarrow>
          (let recent_locations = get_recent_locations st (user_id tx) (timestamp tx)
           in case history_risk (loc_config st) current_location recent_locations of
                Inl e \<Rightarrow> (Inl e, st)
              | Inr risk0 \<Rightarrow>
                  (case geo_fence (loc_config st) current_location risk0 of
                     Inl e \<Rightarrow> (Inl e, st)
                   | Inr risk1 \<Rightarrow>
                       (case add_location st (user_id tx) current_location of
                          (Inl e, st1) \<Rightarrow> (Inl e, st1)
                        | (Inr u, st1) \<Rightarrow> (Inr (min risk1 1.0), st1)))))"

definition detector_location_config :: LocationConfig where
  "detector_location_config =
     \<lparr>max_distance_km = 1000, suspicious_distance_km = 100, time_window_minutes = 60,
      enable_geo_fencing = False, trusted_locations = Some []\<rparr>"

section \<open>Device signal (algorithms/device.py)\<close>

record DeviceConfig =
  enable_fingerprinting :: bool
  suspicious_device_threshold :: int
  new_device_risk_multiplier :: real
  device_velocity_window :: int
  max_devices_per_user :: int

record DeviceFingerprint =
  fp_device_id :: string
  fp_user_agent :: string
  fp_ip_address :: string
  fp_screen_resolution :: "string option"
  fp_timezone :: "string option"
  fp_language :: "string option"
  fp_platform :: "string option"
  fp_first_seen :: "real option"
  fp_last_seen :: "real option"
  fp_transaction_count :: int
  fp_total_amount :: real
  fp_is_trusted :: bool

record DeviceAlgorithm =
  dev_config :: DeviceConfig
  device_fingerprints :: "(string \<times> DeviceFingerprint) list"
  user_devices :: "(string \<times> string set) list"

text \<open>
  One call reads \<open>datetime.now()\<close> up to three times: in \<open>_create_fingerprint\<close>, in
  \<open>_update_device_fingerprint\<close> and in \<open>_calculate_device_velocity\<close>.  The readings (in
  seconds) and the interpreter's string hash are the environment of the call.
\<close>

record device_env =
  now_fingerprint :: real
  now_update :: real
  now_velocity :: real
  str_hash :: "string \<Rightarrow> int"

definition DeviceAlgorithm_init :: "DeviceConfig \<Rightarrow> DeviceAlgorithm" where
  "DeviceAlgorithm_init cfg = \<lparr>dev_config = cfg, device_fingerprints = [], user_devices = []\<rparr>"

text \<open>Decimal digits of a natural number, for the f-string of \<open>_generate_device_id\<close>.\<close>

fun decimal :: "nat \<Rightarrow> string" where
  "decimal n =
     (if n < 10 then [char_of (48 + n)]
      else decimal (n div 10) @ [char_of (48 + n mod 10)])"

text \<open>\<open>'|'.join(components)\<close> on three components.\<close>

definition generate_device_id :: "device_env \<Rightarrow> Transaction \<Rightarrow> error + string" where
  "generate_device_id env tx =
     (let c1 = or_else (user_agent tx) ''unknown'';
          c2 = or_else (ip_address tx) ''unknown'';
          c3 = (case metadata tx of
                  None \<Rightarrow> Some ''unknown''
                | Some md \<Rightarrow> if md = [] then Some ''unknown''
                             else map_of md ''screen_resolution'')
      in case c3 of
           None \<Rightarrow> Inl TypeError
         | Some s3 \<Rightarrow>
             Inr (''device_'' @
                  decimal (nat (str_hash env (c1 @ ''|'' @ c2 @ ''|'' @ s3) mod 1000000))))"

definition create_fingerprint :: "device_env \<Rightarrow> Transaction \<Rightarrow> string \<Rightarrow> DeviceFingerprint" where
  "create_fingerprint env tx did =
     \<lparr>fp_device_id = did,
      fp_user_agent = or_else (user_agent tx) '''',
      fp_ip_address = or_else (ip_address tx) '''',
      fp_screen_resolution = metadata_get tx ''screen_resolution'',
      fp_timezone = metadata_get tx ''timezone'',
      fp_language = metadata_get tx ''language'',
      fp_platform = metadata_get tx ''platform'',
      fp_first_seen = Some (now_fingerprint env),
      fp_last_seen = Some (now_fingerprint env),
      fp_transaction_count = 1,
      fp_total_amount = amount tx,
      fp_is_trusted = False\<rparr>"

definition calculate_device_risk :: "DeviceFingerprint \<Rightarrow> DeviceFingerprint \<Rightarrow> real" where
  "calculate_device_risk existing current =
     (let r1 = (if fp_user_agent existing \<noteq> fp_user_agent current then 0.3 else 0);
          r2 = r1 + (if fp_ip_address existing \<noteq> fp_ip_address current then 0.2 else 0);
          r3 = r2 + (if fp_screen_resolution existing \<noteq> fp_screen_resolution current
                     then 0.1 else 0);
          r4 = r3 + (if fp_timezone existing \<noteq> fp_timezone current then 0.1 else 0);
          r5 = r4 + (case (fp_last_seen existing, fp_last_seen current) of
                       (Some e, Some c) \<Rightarrow> if c - e < 60 then 0.2 else 0
                     | _ \<Rightarrow> 0)
      in min r5 0.8)"

definition calculate_device_velocity ::
    "device_env \<Rightarrow> DeviceAlgorithm \<Rightarrow> string \<Rightarrow> error + real" where
  "calculate_device_velocity env st did =
     (case map_of (device_fingerprints st) did of
        None \<Rightarrow> Inr 0.0
      | Some fingerprint \<Rightarrow>
          (let time_window_seconds = real_of_int (device_velocity_window (dev_config st) * 60)
           in case fp_first_seen fingerprint of
                None \<Rightarrow> Inr 0.0
              | Some first_seen \<Rightarrow>
                  (let time_diff = now_velocity env - first_seen
                   in if time_diff < time_window_seconds
                      then truediv (real_of_int (fp_transaction_count fingerprint))
                             (time_diff / 60)
                      else Inr 0.0)))"

definition get_device_users :: "DeviceAlgorithm \<Rightarrow> string \<Rightarrow> string set" where
  "get_device_users st did =
     set (map fst (filter (\<lambda>(uid, devices). did \<in> devices) (user_devices st)))"

definition calculate_device_sharing_risk :: "DeviceAlgorithm \<Rightarrow> string \<Rightarrow> string \<Rightarrow> real" where
  "calculate_device_sharing_risk st did uid =
     (if card (get_device_users st did) > 1 then 0.5 else 0.0)"

definition get_user_device_count :: "DeviceAlgorithm \<Rightarrow> string \<Rightarrow> nat" where
  "get_user_device_count st uid =
     card (case map_of (user_devices st) uid of None \<Rightarrow> {} | Some ds \<Rightarrow> ds)"

definition add_user_device :: "DeviceAlgorithm \<Rightarrow> string \<Rightarrow> string \<Rightarrow> DeviceAlgorithm" where
  "add_user_device st uid did =
     st\<lparr>user_devices :=
          AList.update uid
            (insert did (case map_of (user_devices st) uid of None \<Rightarrow> {} | Some ds \<Rightarrow> ds))
            (user_devices st)\<rparr>"

definition update_device_fingerprint ::
    "device_env \<Rightarrow> DeviceAlgorithm \<Rightarrow> string \<Rightarrow> Transaction \<Rightarrow> DeviceAlgorithm" where
  "update_device_fingerprint env st did tx =
     (case map_of (device_fingerprints st) did of
        None \<Rightarrow> st
      | Some fingerprint \<Rightarrow>
          st\<lparr>device_fingerprints :=
               AList.update did
                 (fingerprint\<lparr>fp_last_seen := Some (now_update env),
                              fp_transaction_count := fp_transaction_count fingerprint + 1,
                              fp_total_amount := fp_total_amount fingerprint + amount tx\<rparr>)
                 (device_fingerprints st)\<rparr>)"

text \<open>The end of \<open>analyze\<close>, after the device has been stored or updated.\<close>

definition velocity_and_sharing ::
    "device_env \<Rightarrow> DeviceAlgorithm \<Rightarrow> string \<Rightarrow> string \<Rightarrow> real
     \<Rightarrow> (error + real) \<times> DeviceAlgorithm" where
  "velocity_and_sharing env st did uid risk =
     (case calculate_device_velocity env st did of
        Inl e \<Rightarrow> (Inl e, st)
      | Inr device_velocity \<Rightarrow>
          (let risk1 = (if device_velocity
                          > real_of_int (suspicious_device_threshold (dev_config st))
                        then risk + 0.4 else risk);
               sharing_risk = calculate_device_sharing_risk st did uid
           in (Inr (min (risk1 + sharing_risk) 1.0), st)))"

definition DeviceAlgorithm_analyze ::
    "device_env \<Rightarrow> DeviceAlgorithm \<Rightarrow> Transaction \<Rightarrow> (error + real) \<times> DeviceAlgorithm" where
  "DeviceAlgorithm_analyze env st tx =
     (if \<not> truthy (device_id tx) \<and> \<not> truthy (user_agent tx) \<and> \<not> truthy (ip_address tx)
      then (Inr 0.0, st)
      else
        case (if truthy (device_id tx) then Inr (or_else (device_id tx) [])
              else generate_device_id env tx) of
          Inl e \<Rightarrow> (Inl e, st)
        | Inr did \<Rightarrow>
            (let fingerprint = create_fingerprint env tx did
             in case map_of (device_fingerprints st) did of
                  None \<Rightarrow>
                    (let user_device_count = get_user_device_count st (user_id tx);
                         risk = (if int user_device_count
                                    \<ge> max_devices_per_user (dev_config st)
                                 then 0.6 else 0.3);
                         st1 = st\<lparr>device_fingerprints :=
                                    AList.update did fingerprint (device_fingerprints st)\<rparr>;
                         st2 = add_user_device st1 (user_id tx) did
                     in velocity_and_sharing env st2 did (user_id tx) risk)
                | Some existing_fingerprint \<Rightarrow>
                    (let device_risk = calculate_device_risk existing_fingerprint fingerprint;
                         st1 = update_device_fingerprint env st did tx
                     in velocity_and_sharing env st1 did (user_id tx) device_risk)))"

definition detector_device_config :: DeviceConfig where
  "detector_device_config =
     \<lparr>enable_fingerprinting = True, suspicious_device_threshold = 5,
      new_device_risk_multiplier = 1.5, device_velocity_window = 60,
      max_devices_per_user = 5\<rparr>"

section \<open>Time signal (algorithms/time.py)\<close>

record TimeConfig =
  suspicious_hours :: "int list"
  weekend_risk_multiplier :: real
  holiday_risk_multiplier :: real
  timezone_threshold :: int
  enable_holiday_detection :: bool
  custom_holidays :: "datetime list option"

record TimePattern =
  tp_hour :: int
  tp_day_of_week :: int
  tp_is_weekend :: bool
  tp_is_holiday :: bool
  tp_timezone :: string
  tp_risk_score :: real

text \<open>
  A date string \<open>'%Y-%m-%d'\<close> is modelled by the triple it prints; \<open>holidays\<close> is the set
  built by \<open>_initialize_holidays\<close> from the year of construction.
\<close>

record TimeAlgorithm =
  time_config :: TimeConfig
  user_time_patterns :: "(string \<times> TimePattern list) list"
  holidays :: "(int \<times> int \<times> int) list"

definition initialize_holidays :: "TimeConfig \<Rightarrow> int \<Rightarrow> (int \<times> int \<times> int) list" where
  "initialize_holidays cfg current_year =
     (if \<not> enable_holiday_detection cfg then []
      else [(current_year, 1, 1), (current_year, 12, 25), (current_year, 12, 31)])"

definition TimeAlgorithm_init :: "TimeConfig \<Rightarrow> int \<Rightarrow> TimeAlgorithm" where
  "TimeAlgorithm_init cfg current_year =
     \<lparr>time_config = cfg, user_time_patterns = [],
      holidays = initialize_holidays cfg current_year\<rparr>"

definition is_holiday :: "TimeAlgorithm \<Rightarrow> datetime \<Rightarrow> bool" where
  "is_holiday st date =
     (if \<not> enable_holiday_detection (time_config st) then False
      else
        (case custom_holidays (time_config st) of
           None \<Rightarrow> ymd date \<in> set (holidays st)
         | Some hs \<Rightarrow>
             if \<exists>holiday \<in> set hs. ymd holiday = ymd date then True
             else ymd date \<in> set (holidays st)))"

definition get_country_timezone :: "string \<Rightarrow> string" where
  "get_country_timezone c =
     (case map_of
        [(''US'', ''America/New_York''), (''GB'', ''Europe/London''),
         (''DE'', ''Europe/Berlin''), (''FR'', ''Europe/Paris''),
         (''JP'', ''Asia/Tokyo''), (''AU'', ''Australia/Sydney''),
         (''CA'', ''America/Toronto''), (''BR'', ''America/Sao_Paulo''),
         (''IN'', ''Asia/Kolkata''), (''CN'', ''Asia/Shanghai'')] c of
        None \<Rightarrow> ''UTC'' | Some z \<Rightarrow> z)"

definition extract_timezone :: "Transaction \<Rightarrow> string" where
  "extract_timezone tx =
     (case (case metadata tx of None \<Rightarrow> None | Some md \<Rightarrow> map_of md ''timezone'') of
        Some z \<Rightarrow> z
      | None \<Rightarrow>
          (case location tx of
             None \<Rightarrow> ''UTC''
           | Some l \<Rightarrow> if truthy (country l)
                        then get_country_timezone (or_else (country l) []) else ''UTC''))"

definition get_timezone_from_location :: "Location \<Rightarrow> string option" where
  "get_timezone_from_location l =
     (if truthy (country l) then Some (get_country_timezone (or_else (country l) []))
      else None)"

text \<open>Python's \<open>int\<close> on a float truncates towards zero.\<close>

definition py_int :: "real \<Rightarrow> int" where
  "py_int x = (if x \<ge> 0 then \<lfloor>x\<rfloor> else \<lceil>x\<rceil>)"

definition timezone_offset :: "string \<Rightarrow> real" where
  "timezone_offset tz =
     (case map_of
        [(''UTC'', 0), (''America/New_York'', -5), (''Europe/London'', 0),
         (''Europe/Berlin'', 1), (''Europe/Paris'', 1), (''Asia/Tokyo'', 9),
         (''Australia/Sydney'', 10), (''America/Toronto'', -5),
         (''America/Sao_Paulo'', -3), (''Asia/Kolkata'', 5.5),
         (''Asia/Shanghai'', 8)] tz of
        None \<Rightarrow> 0 | Some off \<Rightarrow> off)"

definition calculate_timezone_difference :: "string \<Rightarrow> string \<Rightarrow> int" where
  "calculate_timezone_difference tz1 tz2 =
     \<bar>py_int (timezone_offset tz1 - timezone_offset tz2)\<bar>"

definition analyze_time_pattern :: "TimeAlgorithm \<Rightarrow> datetime \<Rightarrow> Transaction \<Rightarrow> TimePattern" where
  "analyze_time_pattern st transaction_time tx =
     (let day_of_week = weekday transaction_time + 1
      in \<lparr>tp_hour = hour transaction_time,
          tp_day_of_week = day_of_week,
          tp_is_weekend = (day_of_week \<in> {6, 7}),
          tp_is_holiday = is_holiday st transaction_time,
          tp_timezone = extract_timezone tx,
          tp_risk_score = 0.0\<rparr>)"

definition analyze_user_time_pattern :: "TimeAlgorithm \<Rightarrow> string \<Rightarrow> TimePattern \<Rightarrow> real" where
  "analyze_user_time_pattern st uid current_pattern =
     (let user_patterns =
            (case map_of (user_time_patterns st) uid of None \<Rightarrow> [] | Some ps \<Rightarrow> ps)
      in if user_patterns = [] then 0.1
         else
           (let similar_patterns =
                  filter (\<lambda>p. tp_hour p = tp_hour current_pattern \<and>
                               tp_day_of_week p = tp_day_of_week current_pattern)
                    user_patterns;
                total_patterns = length user_patterns;
                similar_count = length similar_patterns;
                frequency = (if total_patterns > 0
                             then real similar_count / real total_patterns else 0)
            in if frequency < 0.1 then 0.3
               else if frequency < 0.3 then 0.1
               else 0.0))"

definition analyze_timezone_anomaly :: "TimeAlgorithm \<Rightarrow> Transaction \<Rightarrow> TimePattern \<Rightarrow> real" where
  "analyze_timezone_anomaly st tx time_pattern =
     (case location tx of
        None \<Rightarrow> 0.0
      | Some l \<Rightarrow>
          (case get_timezone_from_location l of
             None \<Rightarrow> 0.0
           | Some expected_timezone \<Rightarrow>
               if expected_timezone \<noteq> [] \<and> tp_timezone time_pattern \<noteq> [] \<and>
                  calculate_timezone_difference expected_timezone (tp_timezone time_pattern)
                    > timezone_threshold (time_config st)
               then 0.4 else 0.0))"

definition store_user_time_pattern :: "TimeAlgorithm \<Rightarrow> string \<Rightarrow> TimePattern \<Rightarrow> TimeAlgorithm" where
  "store_user_time_pattern st uid pattern =
     (let ps = (case map_of (user_time_patterns st) uid of None \<Rightarrow> [] | Some ps \<Rightarrow> ps)
                 @ [pattern];
          kept = (if length ps > 100 then drop (length ps - 100) ps else ps)
      in st\<lparr>user_time_patterns := AList.update uid kept (user_time_patterns st)\<rparr>)"

definition TimeAlgorithm_analyze ::
    "TimeAlgorithm \<Rightarrow> Transaction \<Rightarrow> (error + real) \<times> TimeAlgorithm" where
  "TimeAlgorithm_analyze st tx =
     (let transaction_time = timestamp tx;
          time_pattern = analyze_time_pattern st transaction_time tx;
          r1 = (if tp_hour time_pattern \<in> set (suspicious_hours (time_config st))
                then 0.4 else 0.0);
          r2 = r1 + (if tp_is_weekend time_pattern
                     then 0.2 * weekend_risk_multiplier (time_config st) else 0);
          r3 = r2 + (if tp_is_holiday time_pattern
                     then 0.3 * holiday_risk_multiplier (time_config st) else 0);
          user_pattern_risk = analyze_user_time_pattern st (user_id tx) time_pattern;
          r4 = r3 + user_pattern_risk;
          timezone_risk = analyze_timezone_anomaly st tx time_pattern;
          r5 = r4 + timezone_risk
      in (Inr (min r5 1.0), store_user_time_pattern st (user_id tx) time_pattern))"

definition detector_time_config :: TimeConfig where
  "detector_time_config =
     \<lparr>suspicious_hours = [0, 1, 2, 3, 4, 5, 22, 23], weekend_risk_multiplier = 1.2,
      holiday_risk_multiplier = 1.5, timezone_threshold = 8,
      enable_holiday_detection = True, custom_holidays = Some []\<rparr>"

section \<open>The modelled signals inside a detector\<close>

text \<open>
  The states of the five signals modelled here and what one call reads from its
  environment.  \<open>modelled_algorithms\<close> is the part of \<open>self.algorithms\<close> they make up: each
  entry is the outcome of that algorithm's \<open>analyze\<close> in its current state.
\<close>

record signal_states =
  s_velocity :: VelocityAlgorithm
  s_amount :: AmountConfig
  s_location :: LocationAlgorithm
  s_device :: DeviceAlgorithm
  s_time :: TimeAlgorithm

definition modelled_algorithms :: "real \<Rightarrow> device_env \<Rightarrow> signal_states \<Rightarrow> (string \<rightharpoonup> signal)" where
  "modelled_algorithms wall env s =
     [''velocity'' \<mapsto> (\<lambda>tx rule. fst (VelocityAlgorithm_analyze wall (s_velocity s) tx)),
      ''amount'' \<mapsto> (\<lambda>tx rule. AmountAlgorithm_analyze (s_amount s) tx),
      ''location'' \<mapsto> (\<lambda>tx rule. fst (LocationAlgorithm_analyze (s_location s) tx)),
      ''device'' \<mapsto> (\<lambda>tx rule. fst (DeviceAlgorithm_analyze env (s_device s) tx)),
      ''time'' \<mapsto> (\<lambda>tx rule. fst (TimeAlgorithm_analyze (s_time s) tx))]"

definition initial_states :: "int \<Rightarrow> signal_states" where
  "initial_states current_year =
     \<lparr>s_velocity = VelocityAlgorithm_init detector_velocity_config,
      s_amount = AmountAlgorithm_init detector_amount_config,
      s_location = LocationAlgorithm_init detector_location_config,
      s_device = DeviceAlgorithm_init detector_device_config,
      s_time = TimeAlgorithm_init detector_time_config current_year\<rparr>"

section \<open>Example inputs\<close>

text \<open>The configuration, the clock readings and the transactions of the examples.\<close>

definition example_config :: FraudDetectorConfig where
  "example_config =
     \<lparr>rules = [''velocity'', ''amount'', ''location''],
      thresholds = [(''velocity'', 0.8), (''amount'', 0.9), (''location'', 0.7)],
      global_threshold = 0.7, enable_logging = False, custom_rules = None\<rparr>"

definition example_env :: device_env where
  "example_env =
     \<lparr>now_fingerprint = 1000, now_update = 1000, now_velocity = 1001, str_hash = (\<lambda>s. 0)\<rparr>"

definition example_detector :: FraudDetector where
  "example_detector =
     \<lparr>det_config = example_config,
      det_algorithms = modelled_algorithms 1000 example_env (initial_states 2024),
      det_rules = initialize_rules example_config\<rparr>"

definition at_time :: "real \<Rightarrow> datetime" where
  "at_time t =
     \<lparr>epoch = t, hour = 12, weekday = 2, ymd = (2024, 6, 5), tz_aware = False\<rparr>"

definition basic_transaction :: "string \<Rightarrow> string \<Rightarrow> real \<Rightarrow> real \<Rightarrow> Transaction" where
  "basic_transaction i u a t =
     \<lparr>tx_id = i, user_id = u, amount = a, currency = ''USD'', timestamp = at_time t,
      location = None, merchant_id = None, merchant_category = None,
      payment_method = None, device_id = None, ip_address = None, user_agent = None,
      metadata = None\<rparr>"

definition new_york :: Location where
  "new_york = \<lparr>lat = 40.7128, lng = -74.0060, country = None, city = None, state = None\<rparr>"

definition normal_transaction :: Transaction where
  "normal_transaction =
     (basic_transaction ''tx_001'' ''user_001'' 100 1000)\<lparr>location := Some new_york\<rparr>"

definition high_amount_transaction :: Transaction where
  "high_amount_transaction = basic_transaction ''tx_002'' ''user_002'' 15000 1000"


text \<open>A run of the velocity signal, each call at the wall-clock time of its transaction.\<close>

definition run_velocity :: "VelocityAlgorithm \<Rightarrow> Transaction list \<Rightarrow> VelocityAlgorithm" where
  "run_velocity st txs =
     foldl (\<lambda>s tx. snd (VelocityAlgorithm_analyze (epoch (timestamp tx)) s tx)) st txs"

definition ten_prior :: "Transaction list" where
  "ten_prior =
     map (basic_transaction ''tx'' ''user_003'' 100)
       [0, 60, 120, 180, 240, 300, 360, 420, 480, 540]"

definition eleventh :: Transaction where
  "eleventh = basic_transaction ''tx_final'' ''user_003'' 100 600"

definition velocity_detector :: FraudDetector where
  "velocity_detector =
     \<lparr>det_config = example_config,
      det_algorithms =
        modelled_algorithms 600 example_env
          ((initial_states 2024)
             \<lparr>s_velocity :=
                run_velocity (VelocityAlgorithm_init detector_velocity_config) ten_prior\<rparr>),
      det_rules = initialize_rules example_config\<rparr>"

definition old_and_recent :: VelocityAlgorithm where
  "old_and_recent =
     \<lparr>vel_config = detector_velocity_config,
      transaction_history =
        [(''user_001'', [basic_transaction ''tx_a'' ''user_001'' 700 (-5000),
                         basic_transaction ''tx_b'' ''user_001'' 100 900])]\<rparr>"

definition recent_only :: VelocityAlgorithm where
  "recent_only =
     \<lparr>vel_config = detector_velocity_config,
      transaction_history =
        [(''user_001'', [basic_transaction ''tx_b'' ''user_001'' 100 900])]\<rparr>"

text \<open>
  A transaction stamped two hours after the one analysed next, a transaction whose
  timestamp carries a timezone, and a refund.
\<close>

definition late_first :: VelocityAlgorithm where
  "late_first =
     run_velocity (VelocityAlgorithm_init detector_velocity_config)
       [basic_transaction ''tx_late'' ''user_001'' 700 8200]"

definition early_transaction :: Transaction where
  "early_transaction = basic_transaction ''tx_early'' ''user_001'' 100 1000"

definition aware_transaction :: Transaction where
  "aware_transaction =
     (basic_transaction ''tx_z'' ''user_001'' 700 900)
       \<lparr>timestamp := (at_time 900)\<lparr>tz_aware := True\<rparr>\<rparr>"

definition aware_first :: VelocityAlgorithm where
  "aware_first =
     run_velocity (VelocityAlgorithm_init detector_velocity_config) [aware_transaction]"

definition next_day_transaction :: Transaction where
  "next_day_transaction = basic_transaction ''tx_n'' ''user_001'' 100 90000"

definition refund_transaction :: Transaction where
  "refund_transaction = basic_transaction ''tx_r'' ''user_002'' (- 1000) 1000"

definition london :: Location where
  "london = \<lparr>lat = 51.5074, lng = -0.1278, country = None, city = None, state = None\<rparr>"

definition london_transaction :: Transaction where
  "london_transaction =
     (basic_transaction ''tx_003'' ''user_001'' 100 1600)\<lparr>location := Some london\<rparr>"

text \<open>Runs of the device signal, and the two-user scenario on one device.\<close>

definition run_device :: "DeviceAlgorithm \<Rightarrow> (device_env \<times> Transaction) list \<Rightarrow> DeviceAlgorithm" where
  "run_device st calls = foldl (\<lambda>s (env, tx). snd (DeviceAlgorithm_analyze env s tx)) st calls"

definition clock :: "real \<Rightarrow> real \<Rightarrow> device_env" where
  "clock t dt =
     \<lparr>now_fingerprint = t, now_update = t, now_velocity = t + dt, str_hash = (\<lambda>s. 0)\<rparr>"

definition device_transaction :: "string \<Rightarrow> string \<Rightarrow> real \<Rightarrow> real \<Rightarrow> Transaction" where
  "device_transaction i u a t =
     (basic_transaction i u a t)
       \<lparr>device_id := Some ''shared_device'', ip_address := Some ''192.168.1.1'',
        user_agent := Some ''Mozilla/5.0...''\<rparr>"

definition after_first_user :: DeviceAlgorithm where
  "after_first_user =
     run_device (DeviceAlgorithm_init detector_device_config)
       [(clock 0 (1/1000), device_transaction ''tx_001'' ''user_001'' 100 0)]"

text \<open>
  The shape of the reverse index in every state the device signal reaches: the keys of
  \<open>user_devices\<close> are distinct, a device with a fingerprint is in the set of exactly one
  user, and a device without a fingerprint is in no set.
\<close>

definition device_inv :: "DeviceAlgorithm \<Rightarrow> bool" where
  "device_inv st =
     (distinct (map fst (user_devices st)) \<and>
      (\<forall>d. card (get_device_users st d) =
             (if map_of (device_fingerprints st) d = None then 0 else 1)))"


section \<open>Properties of the orchestrator\<close>

lemma weighted_sum_append:
  "weighted_sum (xs @ ys) = weighted_sum xs + weighted_sum ys"
  by (simp add: weighted_sum_def)

lemma weight_sum_append:
  "weight_sum (xs @ ys) = weight_sum xs + weight_sum ys"
  by (simp add: weight_sum_def)

lemma triggered_of_append:
  "triggered_of (xs @ ys) = triggered_of xs @ triggered_of ys"
  by (simp add: triggered_of_def)

lemma sums_Nil: "weighted_sum [] = 0" "weight_sum [] = 0" "triggered_of [] = []"
  by (simp_all add: weighted_sum_def weight_sum_def triggered_of_def)
lemma sums_single: "weighted_sum [(n, r, s)] = s * weight r" "weight_sum [(n, r, s)] = weight r"
  "triggered_of [(n, r, s)] = (if s \<ge> threshold r then [n] else [])"
  by (simp_all add: weighted_sum_def weight_sum_def triggered_of_def)
lemma process_rule_contributing:
  "process_rule algs tx a (n, r) =
     \<lparr>acc_triggered = acc_triggered a @ triggered_of (contributing algs tx [(n, r)]),
      total_weighted_score =
        total_weighted_score a + weighted_sum (contributing algs tx [(n, r)]),
      total_weight = total_weight a + weight_sum (contributing algs tx [(n, r)])\<rparr>"
  by (cases a) (simp add: sums_Nil sums_single split: option.split sum.split)

lemma contributing_Cons:
  "contributing algs tx (p # rs) = contributing algs tx [p] @ contributing algs tx rs"
  by (cases p) simp

lemma contributing_append:
  "contributing algs tx (rs @ rs') = contributing algs tx rs @ contributing algs tx rs'"
  by (induction rs) auto

lemma foldl_process_rule:
  "foldl (process_rule algs tx) a rs =
     \<lparr>acc_triggered = acc_triggered a @ triggered_of (contributing algs tx rs),
      total_weighted_score = total_weighted_score a + weighted_sum (contributing algs tx rs),
      total_weight = total_weight a + weight_sum (contributing algs tx rs)\<rparr>"
proof (induction rs arbitrary: a)
  case Nil
  show ?case by (simp add: sums_Nil)
next
  case (Cons p rs)
  obtain n r where p: "p = (n, r)" by (cases p)
  have c: "contributing algs tx (p # rs) = contributing algs tx [(n, r)] @ contributing algs tx rs"
    using contributing_Cons [of algs tx p rs] by (simp only: p)
  have "foldl (process_rule algs tx) a (p # rs) =
        foldl (process_rule algs tx) (process_rule algs tx a (n, r)) rs"
    by (simp add: p)
  also have "\<dots> =
     \<lparr>acc_triggered = acc_triggered a @ triggered_of (contributing algs tx (p # rs)),
      total_weighted_score =
        total_weighted_score a + weighted_sum (contributing algs tx (p # rs)),
      total_weight = total_weight a + weight_sum (contributing algs tx (p # rs))\<rparr>"
    unfolding Cons.IH c process_rule_contributing [of algs tx a n r]
    by (simp add: weighted_sum_append weight_sum_append triggered_of_append)
  finally show ?case .
qed

lemma analyze_result:
  "analyze det tx =
     (let cs = contributing (det_algorithms det) tx (det_rules det) in
      Inr \<lparr>transaction_id = tx_id tx,
           risk_score = min (aggregate cs) 1,
           is_fraudulent = (aggregate cs \<ge> global_threshold (det_config det)),
           confidence = confidence_of (det_config det) cs,
           triggered_rules = triggered_of cs,
           recommendations =
             generate_recommendations (triggered_of cs) (min (aggregate cs) 1)
               (confidence_of (det_config det) cs)\<rparr>)"
  by (simp add: analyze_def foldl_process_rule Let_def bind_res_def truediv_def
      aggregate_def confidence_of_def)

lemma weighted_le_weight:
  "\<forall>(n, r, s) \<in> set cs. 0 \<le> weight r \<and> s \<le> 1 \<Longrightarrow> weighted_sum cs \<le> weight_sum cs"
proof (induction cs)
  case Nil
  show ?case by (simp add: sums_Nil)
next
  case (Cons c cs)
  obtain n r s where c: "c = (n, r, s)" by (cases c)
  from Cons.prems have "0 \<le> weight r" "s \<le> 1" by (simp_all add: c)
  then have "s * weight r \<le> weight r" using mult_right_mono [of s 1 "weight r"] by simp
  moreover have "weighted_sum cs \<le> weight_sum cs" using Cons by simp
  ultimately show ?case by (simp add: c weighted_sum_def weight_sum_def)
qed

lemma weighted_nonneg:
  "\<forall>(n, r, s) \<in> set cs. 0 \<le> weight r \<and> 0 \<le> s \<Longrightarrow> 0 \<le> weighted_sum cs"
proof (induction cs)
  case Nil
  show ?case by (simp add: sums_Nil)
next
  case (Cons c cs)
  obtain n r s where c: "c = (n, r, s)" by (cases c)
  from Cons.prems have "0 \<le> s * weight r" by (simp add: c)
  moreover have "0 \<le> weighted_sum cs" using Cons by simp
  ultimately show ?case by (simp add: c weighted_sum_def)
qed

lemma aggregate_le_1:
  "\<forall>(n, r, s) \<in> set cs. 0 \<le> weight r \<and> s \<le> 1 \<Longrightarrow> aggregate cs \<le> 1"
  using weighted_le_weight [of cs] by (simp add: aggregate_def)

lemma aggregate_nonneg:
  "\<forall>(n, r, s) \<in> set cs. 0 \<le> weight r \<and> 0 \<le> s \<Longrightarrow> 0 \<le> aggregate cs"
  using weighted_nonneg [of cs] by (simp add: aggregate_def)

lemma confidence_of_range: "0 \<le> confidence_of cfg cs \<and> confidence_of cfg cs \<le> 1"
proof (cases "rules cfg = []")
  case True
  then show ?thesis by (simp add: confidence_of_def)
next
  case False
  have "0 \<le> real (length (triggered_of cs)) / real (length (rules cfg))" by simp
  then show ?thesis using False unfolding confidence_of_def by (simp add: min_def)
qed

lemma triggered_of_subset: "set (triggered_of (contributing algs tx rs)) \<subseteq> fst ` set rs"
proof (induction rs)
  case Nil
  show ?case by (simp add: sums_Nil)
next
  case (Cons p rs)
  obtain n r where p: "p = (n, r)" by (cases p)
  have "set (triggered_of (contributing algs tx [(n, r)])) \<subseteq> {n}"
    by (auto simp: sums_Nil sums_single split: option.split sum.split)
  moreover have "triggered_of (contributing algs tx (p # rs)) =
      triggered_of (contributing algs tx [(n, r)]) @ triggered_of (contributing algs tx rs)"
    unfolding p contributing_Cons [of algs tx "(n, r)" rs] triggered_of_append ..
  ultimately have "set (triggered_of (contributing algs tx (p # rs))) \<subseteq>
      {n} \<union> set (triggered_of (contributing algs tx rs))"
    by (simp only: set_append) blast
  then show ?case using Cons.IH by (auto simp: p)
qed


lemma example_defs:
  "example_detector =
     \<lparr>det_config = example_config,
      det_algorithms = modelled_algorithms 1000 example_env (initial_states 2024),
      det_rules = initialize_rules example_config\<rparr>"
  "initial_states y =
     \<lparr>s_velocity = VelocityAlgorithm_init detector_velocity_config,
      s_amount = AmountAlgorithm_init detector_amount_config,
      s_location = LocationAlgorithm_init detector_location_config,
      s_device = DeviceAlgorithm_init detector_device_config,
      s_time = TimeAlgorithm_init detector_time_config y\<rparr>"
  by (simp_all add: example_detector_def initial_states_def)

lemmas eval_defs =
  example_defs modelled_algorithms_def initialize_rules_def example_config_def
  default_rule_def VelocityAlgorithm_analyze_def VelocityAlgorithm_init_def
  detector_velocity_config_def normal_transaction_def high_amount_transaction_def
  basic_transaction_def recent_transactions_def user_history_of_def truediv_def
  add_transaction_def at_time_def Let_def AmountAlgorithm_analyze_def
  AmountAlgorithm_init_def detector_amount_config_def amount_bands_def
  normalized_amount_of_def bind_res_def LocationAlgorithm_analyze_def
  LocationAlgorithm_init_def detector_location_config_def get_recent_locations_def
  history_risk_def geo_fence_def add_location_def dt_sub_def refund_transaction_def

lemma contributing_normal:
  "contributing (det_algorithms example_detector) normal_transaction
     (det_rules example_detector) =
   [(''velocity'', default_rule example_config ''velocity'' 0.15 0.8, 3/50),
    (''amount'', default_rule example_config ''amount'' 0.15 0.9, 1/20)]"
  by (simp add: eval_defs)

lemma contributing_high_amount:
  "contributing (det_algorithms example_detector) high_amount_transaction
     (det_rules example_detector) =
   [(''velocity'', default_rule example_config ''velocity'' 0.15 0.8, 11/20),
    (''amount'', default_rule example_config ''amount'' 0.15 0.9, 1),
    (''location'', default_rule example_config ''location'' 0.15 0.7, 0)]"
  by (simp add: eval_defs)

text \<open>
  C1.  The risk score that \<open>FraudDetector.analyze\<close> returns is the weighted average
  \<open>\<Sum>(score\<cdot>weight) / \<Sum>weight\<close> over exactly the contributing rules (enabled, registered,
  signal call returned) when that weight sum is positive, and 0 when it is not.  The code
  passes the quotient through \<open>min(\<cdot>, 1.0)\<close>; with weights that are not negative and
  signal scores of at most 1 (every signal ends in \<open>min(\<cdot>, 1.0)\<close>) the quotient is already
  at most 1 and is returned as it is.
\<close>

theorem analyze_weighted_average:
  "\<exists>res. analyze det tx = Inr res \<and>
     risk_score res =
       min (if weight_sum (contributing (det_algorithms det) tx (det_rules det)) > 0
            then weighted_sum (contributing (det_algorithms det) tx (det_rules det))
                 / weight_sum (contributing (det_algorithms det) tx (det_rules det))
            else 0) 1 \<and>
     ((\<forall>(n, r, s) \<in> set (contributing (det_algorithms det) tx (det_rules det)).
          0 \<le> weight r \<and> s \<le> 1) \<longrightarrow>
      risk_score res =
        (if weight_sum (contributing (det_algorithms det) tx (det_rules det)) > 0
         then weighted_sum (contributing (det_algorithms det) tx (det_rules det))
              / weight_sum (contributing (det_algorithms det) tx (det_rules det))
         else 0))"
proof -
  let ?cs = "contributing (det_algorithms det) tx (det_rules det)"
  have "(\<forall>(n, r, s) \<in> set ?cs. 0 \<le> weight r \<and> s \<le> 1) \<longrightarrow> min (aggregate ?cs) 1 = aggregate ?cs"
    using aggregate_le_1 [of ?cs] by simp
  then show ?thesis
    unfolding analyze_result Let_def by (simp add: aggregate_def)
qed

theorem analyze_weighted_average_witness:
  "list_all (\<lambda>(n, r, s). 0 \<le> weight r \<and> s \<le> 1)
     (contributing (det_algorithms example_detector) high_amount_transaction
        (det_rules example_detector)) \<and>
   weight_sum (contributing (det_algorithms example_detector) high_amount_transaction
                 (det_rules example_detector)) = 9/20 \<and>
   weighted_sum (contributing (det_algorithms example_detector) high_amount_transaction
                   (det_rules example_detector)) = 93/400 \<and>
   (\<exists>res. analyze example_detector high_amount_transaction = Inr res \<and> risk_score res = 31/60)"
  using analyze_weighted_average [of example_detector high_amount_transaction]
  unfolding contributing_high_amount
  by (auto simp: weight_sum_def weighted_sum_def default_rule_def)

text \<open>
  C2.  \<open>FraudDetector.analyze\<close> never raises: both divisions are guarded, and an exception
  of a signal is caught inside the loop.  It returns a result for the transaction, with
  a risk score of at most 1, a confidence in [0,1] and triggered rules taken from the
  registry.  A rule whose signal raised contributes to neither sum and is not triggered:
  the result is the one of the registry without that rule.
\<close>

theorem analyze_never_raises:
  "\<exists>res. analyze det tx = Inr res \<and>
     transaction_id res = tx_id tx \<and> risk_score res \<le> 1 \<and>
     0 \<le> confidence res \<and> confidence res \<le> 1 \<and>
     set (triggered_rules res) \<subseteq> fst ` set (det_rules det) \<and>
     (\<forall>rs1 n r rs2 alg e.
        det_rules det = rs1 @ (n, r) # rs2 \<and> enabled r \<and>
        det_algorithms det n = Some alg \<and> alg tx r = Inl e \<longrightarrow>
        analyze (det\<lparr>det_rules := rs1 @ rs2\<rparr>) tx = Inr res)"
proof -
  let ?cs = "contributing (det_algorithms det) tx (det_rules det)"
  have excl: "contributing (det_algorithms det) tx (rs1 @ rs2) = ?cs"
    if "det_rules det = rs1 @ (n, r) # rs2" "enabled r"
       "det_algorithms det n = Some alg" "alg tx r = Inl e"
    for rs1 n r rs2 alg e
    using that by (simp add: contributing_append)
  have "\<forall>rs1 n r rs2 alg e.
        det_rules det = rs1 @ (n, r) # rs2 \<and> enabled r \<and>
        det_algorithms det n = Some alg \<and> alg tx r = Inl e \<longrightarrow>
        analyze (det\<lparr>det_rules := rs1 @ rs2\<rparr>) tx = analyze det tx"
    using excl unfolding analyze_result Let_def by (auto simp del: contributing.simps)
  then show ?thesis
    using confidence_of_range [of "det_config det" ?cs]
      triggered_of_subset [of "det_algorithms det" tx "det_rules det"]
    unfolding analyze_result Let_def by (auto simp del: contributing.simps)
qed

theorem analyze_never_raises_witness:
  "det_rules example_detector =
     [(''velocity'', default_rule example_config ''velocity'' 0.15 0.8),
      (''amount'', default_rule example_config ''amount'' 0.15 0.9)]
     @ (''location'', default_rule example_config ''location'' 0.15 0.7)
     # drop 3 (initialize_rules example_config) \<and>
   enabled (default_rule example_config ''location'' 0.15 0.7) \<and>
   (\<exists>alg. det_algorithms example_detector ''location'' = Some alg \<and>
      alg normal_transaction (default_rule example_config ''location'' 0.15 0.7)
        = Inl TypeError) \<and>
   (\<exists>res. analyze example_detector normal_transaction = Inr res \<and>
      analyze (example_detector\<lparr>det_rules :=
          [(''velocity'', default_rule example_config ''velocity'' 0.15 0.8),
           (''amount'', default_rule example_config ''amount'' 0.15 0.9)]
          @ drop 3 (initialize_rules example_config)\<rparr>) normal_transaction = Inr res \<and>
      risk_score res = 11/200 \<and> triggered_rules res = [])"
proof -
  have r: "det_rules example_detector =
     [(''velocity'', default_rule example_config ''velocity'' 0.15 0.8),
      (''amount'', default_rule example_config ''amount'' 0.15 0.9)]
     @ (''location'', default_rule example_config ''location'' 0.15 0.7)
     # drop 3 (initialize_rules example_config)"
    by (simp add: example_detector_def initialize_rules_def example_config_def)
  have e: "enabled (default_rule example_config ''location'' 0.15 0.7)"
    by (simp add: default_rule_def example_config_def)
  have a: "det_algorithms example_detector ''location'' =
      Some (\<lambda>tx rule. fst (LocationAlgorithm_analyze
                             (s_location (initial_states 2024)) tx))"
    by (simp add: example_detector_def modelled_algorithms_def)
  have l: "fst (LocationAlgorithm_analyze (s_location (initial_states 2024))
                  normal_transaction) = Inl TypeError"
    by (simp add: eval_defs)
  obtain res where res: "analyze example_detector normal_transaction = Inr res"
    and ex: "\<forall>rs1 n r rs2 alg e.
        det_rules example_detector = rs1 @ (n, r) # rs2 \<and> enabled r \<and>
        det_algorithms example_detector n = Some alg \<and> alg normal_transaction r = Inl e \<longrightarrow>
        analyze (example_detector\<lparr>det_rules := rs1 @ rs2\<rparr>) normal_transaction = Inr res"
    using analyze_never_raises [of example_detector normal_transaction] by blast
  have "analyze (example_detector\<lparr>det_rules :=
          [(''velocity'', default_rule example_config ''velocity'' 0.15 0.8),
           (''amount'', default_rule example_config ''amount'' 0.15 0.9)]
          @ drop 3 (initialize_rules example_config)\<rparr>) normal_transaction = Inr res"
    using ex r e a l by blast
  moreover have "risk_score res = 11/200 \<and> triggered_rules res = []"
    using res unfolding analyze_result Let_def contributing_normal
    by (auto simp: aggregate_def weight_sum_def weighted_sum_def triggered_of_def
        default_rule_def example_config_def)
  ultimately show ?thesis using r e a l res by blast
qed

lemma contributing_refund:
  "contributing (det_algorithms example_detector) refund_transaction
     (det_rules example_detector) =
   [(''velocity'', default_rule example_config ''velocity'' 0.15 0.8, - (1/20)),
    (''amount'', default_rule example_config ''amount'' 0.15 0.9, - (1/2)),
    (''location'', default_rule example_config ''location'' 0.15 0.7, 0)]"
  by (simp add: eval_defs)

text \<open>
  What does hold of the range for every detector and transaction: the confidence is
  \<open>min(triggered_count / configured_rule_count, 1.0)\<close> (0 for an empty \<open>config.rules\<close>,
  where the code guards the division) and lies in [0,1]; the risk score is at most 1; it
  is at least 0 when no contributing rule has a negative weight or a negative score.
\<close>

lemma analyze_confidence_range:
  "\<exists>res. analyze det tx = Inr res \<and>
     triggered_rules res =
       map fst (filter (\<lambda>(n, r, s). s \<ge> threshold r)
                  (contributing (det_algorithms det) tx (det_rules det))) \<and>
     confidence res =
       (if rules (det_config det) = [] then 0
        else min (real (length (triggered_rules res))
                    / real (length (rules (det_config det)))) 1) \<and>
     0 \<le> confidence res \<and> confidence res \<le> 1 \<and>
     risk_score res \<le> 1 \<and>
     ((\<forall>(n, r, s) \<in> set (contributing (det_algorithms det) tx (det_rules det)).
          0 \<le> weight r \<and> 0 \<le> s) \<longrightarrow> 0 \<le> risk_score res)"
proof -
  let ?cs = "contributing (det_algorithms det) tx (det_rules det)"
  have "(\<forall>(n, r, s) \<in> set ?cs. 0 \<le> weight r \<and> 0 \<le> s) \<longrightarrow> 0 \<le> min (aggregate ?cs) 1"
    using aggregate_nonneg [of ?cs] by simp
  then show ?thesis
    using confidence_of_range [of "det_config det" ?cs]
    unfolding analyze_result Let_def
    by (simp add: confidence_of_def triggered_of_def)
qed

text \<open>
  C8.  The range of the risk score on the code, for a refund of 1000 USD analysed by a
  detector with the rules velocity, amount and location: the velocity signal returns
  -0.05, the amount signal -0.5 and the location signal 0, the weighted average is
  \<open>-0.0825/0.45\<close>, and \<open>min(\<cdot>, 1.0)\<close> leaves it as it is.  The result carries the risk
  score -11/60, below the range [0,1]; its confidence is 0.
\<close>

theorem refund_risk_score_negative:
  "\<exists>res. analyze example_detector refund_transaction = Inr res \<and>
     risk_score res = - (11/60) \<and> risk_score res < 0 \<and> confidence res = 0"
  unfolding analyze_result Let_def contributing_refund
  by (simp add: aggregate_def weight_sum_def weighted_sum_def triggered_of_def
      confidence_of_def default_rule_def example_config_def example_detector_def)


section \<open>Properties of the velocity signal\<close>

lemma filter_recent_same:
  "list_all (\<lambda>e. tz_aware (timestamp e) = tz_aware now) h \<Longrightarrow>
   filter_recent now w h =
     Inr (filter (\<lambda>t. (epoch now - epoch (timestamp t)) * 1000 \<le> w) h)"
  by (induction h) (simp_all add: dt_sub_def bind_res_def)

lemma filter_recent_mixed:
  "\<not> list_all (\<lambda>e. tz_aware (timestamp e) = tz_aware now) h \<Longrightarrow>
   filter_recent now w h = Inl TypeError"
  by (induction h) (auto simp: dt_sub_def bind_res_def split: sum.split)

lemma recent_is_window:
  assumes "same_kind st tx"
  shows "recent_transactions st tx = Inr (window_events st tx)"
proof -
  have "((a - b) * 1000 \<le> real_of_int (w * 60 * 1000)) = ((a - b) / 60 \<le> real_of_int w)"
    for a b :: real and w :: int
    by (simp add: field_simps) linarith
  then show ?thesis
    using assms filter_recent_same [of "timestamp tx" "user_history_of st (user_id tx)"]
    by (simp add: recent_transactions_def window_events_def same_kind_def Let_def)
qed

lemma velocity_analyze_mixed:
  assumes "\<not> same_kind st tx"
  shows "VelocityAlgorithm_analyze wall st tx = (Inl TypeError, st)"
  using assms filter_recent_mixed [of "timestamp tx" "user_history_of st (user_id tx)"]
  by (simp add: VelocityAlgorithm_analyze_def recent_transactions_def same_kind_def Let_def)

lemma velocity_analyze_eq:
  assumes "max_transactions (vel_config st) \<noteq> 0" "max_amount (vel_config st) \<noteq> 0"
    and "same_kind st tx"
  shows "VelocityAlgorithm_analyze wall st tx =
     (Inr ((count_risk_of st tx + amount_risk_of st tx) / 2), add_transaction wall st tx)"
proof -
  have "min ((count_risk_of st tx + amount_risk_of st tx) / 2) 1
        = (count_risk_of st tx + amount_risk_of st tx) / 2"
    by (simp add: count_risk_of_def amount_risk_of_def min_def)
  then show ?thesis
    using assms(1,2)
    by (simp add: VelocityAlgorithm_analyze_def truediv_def Let_def
        recent_is_window [OF assms(3)] count_risk_of_def amount_risk_of_def add.commute)
qed

text \<open>
  C4, as amended.  When neither \<open>max_transactions\<close> nor \<open>max_amount\<close> is zero and every
  stored event of the user is of the same timezone kind as the transaction, the velocity
  contribution is the average of the count risk \<open>min((count + 1)/max_transactions, 1)\<close>
  and the amount risk \<open>min((sum + amount)/max_amount, 1)\<close>, where count and sum range over
  the stored events of the user that are at most \<open>time_window\<close> minutes older than the
  transaction, those stamped later than the transaction included.  Two such states that
  agree on these events give the same contribution: an event more than \<open>time_window\<close>
  minutes older than the transaction does not affect it.
\<close>

theorem velocity_average_of_window:
  assumes "max_transactions (vel_config st) \<noteq> 0" "max_amount (vel_config st) \<noteq> 0"
    and "same_kind st tx"
  shows "fst (VelocityAlgorithm_analyze wall st tx) =
           Inr ((count_risk_of st tx + amount_risk_of st tx) / 2) \<and>
         (\<forall>st' wall'. vel_config st' = vel_config st \<and> same_kind st' tx \<and>
              window_events st' tx = window_events st tx \<longrightarrow>
              fst (VelocityAlgorithm_analyze wall' st' tx) =
              fst (VelocityAlgorithm_analyze wall st tx))"
  using assms
  by (simp add: velocity_analyze_eq count_risk_of_def amount_risk_of_def)

theorem velocity_average_of_window_witness:
  "max_transactions (vel_config old_and_recent) \<noteq> 0 \<and>
   max_amount (vel_config old_and_recent) \<noteq> 0 \<and>
   same_kind old_and_recent (basic_transaction ''tx_c'' ''user_001'' 100 1000) \<and>
   vel_config recent_only = vel_config old_and_recent \<and>
   same_kind recent_only (basic_transaction ''tx_c'' ''user_001'' 100 1000) \<and>
   window_events recent_only (basic_transaction ''tx_c'' ''user_001'' 100 1000) =
     window_events old_and_recent (basic_transaction ''tx_c'' ''user_001'' 100 1000) \<and>
   fst (VelocityAlgorithm_analyze 1000 old_and_recent
          (basic_transaction ''tx_c'' ''user_001'' 100 1000)) = Inr (3/25) \<and>
   fst (VelocityAlgorithm_analyze 1000 recent_only
          (basic_transaction ''tx_c'' ''user_001'' 100 1000)) = Inr (3/25)"
  using velocity_average_of_window [of old_and_recent
      "basic_transaction ''tx_c'' ''user_001'' 100 1000" 1000]
  by (simp add: old_and_recent_def recent_only_def window_events_def count_risk_of_def
      amount_risk_of_def detector_velocity_config_def basic_transaction_def
      user_history_of_def at_time_def same_kind_def)

lemma step_first:
  "snd (VelocityAlgorithm_analyze (epoch (timestamp tx))
          \<lparr>vel_config = detector_velocity_config, transaction_history = []\<rparr> tx) =
     \<lparr>vel_config = detector_velocity_config, transaction_history = [(user_id tx, [tx])]\<rparr>"
  by (simp add: VelocityAlgorithm_analyze_def recent_transactions_def truediv_def Let_def
      add_transaction_def detector_velocity_config_def user_history_of_def)

lemma step_next:
  assumes "\<forall>t \<in> set h. epoch (timestamp tx) - 3600 < epoch (timestamp t)"
    and "\<forall>t \<in> set h. tz_aware (timestamp t) = tz_aware (timestamp tx)"
  shows "snd (VelocityAlgorithm_analyze (epoch (timestamp tx))
          \<lparr>vel_config = detector_velocity_config,
           transaction_history = [(user_id tx, h)]\<rparr> tx) =
     \<lparr>vel_config = detector_velocity_config,
      transaction_history = [(user_id tx, h @ [tx])]\<rparr>"
proof -
  let ?st = "\<lparr>vel_config = detector_velocity_config,
              transaction_history = [(user_id tx, h)]\<rparr>"
  have "same_kind ?st tx"
    using assms(2) by (simp add: same_kind_def user_history_of_def list_all_iff)
  then have "snd (VelocityAlgorithm_analyze (epoch (timestamp tx)) ?st tx) =
      add_transaction (epoch (timestamp tx)) ?st tx"
    by (simp add: velocity_analyze_eq detector_velocity_config_def)
  then show ?thesis
    using assms(1)
    by (simp add: add_transaction_def detector_velocity_config_def user_history_of_def
        Let_def)
qed

lemma run_snoc:
  "run_velocity st (txs @ [tx]) =
     snd (VelocityAlgorithm_analyze (epoch (timestamp tx)) (run_velocity st txs) tx)"
  by (simp add: run_velocity_def)


lemma run_same_user:
  assumes "\<forall>t \<in> set txs. user_id t = u"
    and "\<forall>t \<in> set (h @ txs). lo < epoch (timestamp t) \<and> epoch (timestamp t) < lo + 3600"
    and "\<forall>t \<in> set (h @ txs). \<not> tz_aware (timestamp t)"
  shows "run_velocity \<lparr>vel_config = detector_velocity_config,
                        transaction_history = [(u, h)]\<rparr> txs =
         \<lparr>vel_config = detector_velocity_config, transaction_history = [(u, h @ txs)]\<rparr>"
  using assms
proof (induction txs arbitrary: h)
  case Nil
  show ?case by (simp add: run_velocity_def)
next
  case (Cons tx txs)
  have u: "user_id tx = u" using Cons.prems(1) by simp
  have b: "epoch (timestamp tx) < lo + 3600" using Cons.prems(2) by simp
  have "\<forall>t \<in> set h. epoch (timestamp tx) - 3600 < epoch (timestamp t)"
  proof
    fix t assume "t \<in> set h"
    then have "lo < epoch (timestamp t)" using Cons.prems(2) by simp
    then show "epoch (timestamp tx) - 3600 < epoch (timestamp t)" using b by linarith
  qed
  moreover have "\<forall>t \<in> set h. tz_aware (timestamp t) = tz_aware (timestamp tx)"
    using Cons.prems(3) by simp
  ultimately have s: "snd (VelocityAlgorithm_analyze (epoch (timestamp tx))
          \<lparr>vel_config = detector_velocity_config, transaction_history = [(u, h)]\<rparr> tx) =
     \<lparr>vel_config = detector_velocity_config, transaction_history = [(u, h @ [tx])]\<rparr>"
    using step_next [of h tx] by (simp add: u)
  have "run_velocity \<lparr>vel_config = detector_velocity_config,
                        transaction_history = [(u, h)]\<rparr> (tx # txs) =
        run_velocity \<lparr>vel_config = detector_velocity_config,
                        transaction_history = [(u, h @ [tx])]\<rparr> txs"
    using s by (simp add: run_velocity_def)
  also have "\<dots> = \<lparr>vel_config = detector_velocity_config,
                     transaction_history = [(u, (h @ [tx]) @ txs)]\<rparr>"
    using Cons.prems by (intro Cons.IH) auto
  finally show ?case by simp
qed

lemma run_ten_prior:
  "run_velocity (VelocityAlgorithm_init detector_velocity_config) ten_prior =
     \<lparr>vel_config = detector_velocity_config,
      transaction_history = [(''user_003'', ten_prior)]\<rparr>"
proof -
  let ?t0 = "basic_transaction ''tx'' ''user_003'' 100 0"
  let ?rest = "map (basic_transaction ''tx'' ''user_003'' 100)
       [60, 120, 180, 240, 300, 360, 420, 480, 540]"
  have t: "ten_prior = ?t0 # ?rest" by (simp add: ten_prior_def)
  have "run_velocity (VelocityAlgorithm_init detector_velocity_config) ten_prior =
        run_velocity \<lparr>vel_config = detector_velocity_config,
                        transaction_history = [(''user_003'', [?t0])]\<rparr> ?rest"
    unfolding t using step_first [of ?t0]
    by (simp add: run_velocity_def VelocityAlgorithm_init_def basic_transaction_def)
  also have "\<dots> = \<lparr>vel_config = detector_velocity_config,
                     transaction_history = [(''user_003'', [?t0] @ ?rest)]\<rparr>"
    by (rule run_same_user [where lo = "-1"])
       (simp_all add: basic_transaction_def at_time_def)
  finally show ?thesis by (simp add: t)
qed

lemma eleventh_velocity_value:
  "fst (VelocityAlgorithm_analyze 600
          (run_velocity (VelocityAlgorithm_init detector_velocity_config) ten_prior)
          eleventh) = Inr (61/100)"
  unfolding run_ten_prior
  by (simp add: ten_prior_def eleventh_def VelocityAlgorithm_analyze_def
      detector_velocity_config_def basic_transaction_def recent_transactions_def
      user_history_of_def truediv_def at_time_def Let_def dt_sub_def bind_res_def)


lemma eleventh_not_triggered:
  "\<exists>res. analyze velocity_detector eleventh = Inr res \<and> triggered_rules res = []"
proof -
  have v: "fst (VelocityAlgorithm_analyze 600
          (run_velocity (VelocityAlgorithm_init detector_velocity_config) ten_prior)
          eleventh) = Inr (61/100)"
    by (rule eleventh_velocity_value)
  have a: "AmountAlgorithm_analyze (AmountAlgorithm_init detector_amount_config) eleventh
      = Inr (1/20)"
    by (simp add: eleventh_def basic_transaction_def AmountAlgorithm_analyze_def
        AmountAlgorithm_init_def detector_amount_config_def amount_bands_def
        normalized_amount_of_def bind_res_def truediv_def Let_def)
  have l: "fst (LocationAlgorithm_analyze (LocationAlgorithm_init detector_location_config)
      eleventh) = Inr 0"
    by (simp add: eleventh_def basic_transaction_def LocationAlgorithm_analyze_def)
  have "contributing (det_algorithms velocity_detector) eleventh (det_rules velocity_detector) =
     [(''velocity'', default_rule example_config ''velocity'' 0.15 0.8, 61/100),
      (''amount'', default_rule example_config ''amount'' 0.15 0.9, 1/20),
      (''location'', default_rule example_config ''location'' 0.15 0.7, 0)]"
    by (simp add: velocity_detector_def modelled_algorithms_def initial_states_def
        initialize_rules_def example_config_def default_rule_def v a l)
  then show ?thesis
    unfolding analyze_result Let_def
    by (simp add: triggered_of_def default_rule_def example_config_def)
qed



text \<open>
  C5.  The scenario of the specification on the code: ten transactions of $100 of one
  user, one a minute, analysed by the velocity signal as the detector configures it
  (window 60 minutes, \<open>max_transactions = 10\<close>, \<open>max_amount = 5000\<close>); then an eleventh
  of $100.  The count risk is \<open>min(11/10, 1) = 1\<close>, the amount risk is \<open>1100/5000\<close>, and the
  contribution is their average 0.61, below the 0.95 of the specification and below the
  threshold 0.8 at which the repository's own test expects the rule to trigger: in a
  detector holding that velocity state no rule is triggered by the eleventh transaction.
\<close>

theorem velocity_scenario_score:
  "fst (VelocityAlgorithm_analyze 600
          (run_velocity (VelocityAlgorithm_init detector_velocity_config) ten_prior)
          eleventh) = Inr (61/100) \<and>
   (\<exists>res. analyze velocity_detector eleventh = Inr res \<and> triggered_rules res = [])"
  using eleventh_velocity_value eleventh_not_triggered by simp

lemma late_first_eq:
  "late_first =
     \<lparr>vel_config = detector_velocity_config,
      transaction_history =
        [(''user_001'', [basic_transaction ''tx_late'' ''user_001'' 700 8200])]\<rparr>"
  using step_first [of "basic_transaction ''tx_late'' ''user_001'' 700 8200"]
  by (simp add: late_first_def run_velocity_def VelocityAlgorithm_init_def
      basic_transaction_def)

lemma aware_first_eq:
  "aware_first =
     \<lparr>vel_config = detector_velocity_config,
      transaction_history = [(''user_001'', [aware_transaction])]\<rparr>"
  using step_first [of aware_transaction]
  by (simp add: aware_first_def run_velocity_def VelocityAlgorithm_init_def
      aware_transaction_def basic_transaction_def)

text \<open>
  C4 as stated fails on the code in two ways.  A stored event stamped two hours after
  the transaction lies outside the trailing window, yet the filter keeps it: the code
  returns 0.18 where the average over the trailing window is 0.06.  And a stored event
  a day older than the transaction, far outside the window, makes the call raise
  \<open>TypeError\<close> when its timestamp carries a timezone and the transaction's does not,
  where the same call without that event returns 0.06.
\<close>

theorem velocity_trailing_window_counterexample:
  "fst (VelocityAlgorithm_analyze 8200 late_first early_transaction) = Inr (9/50) \<and>
   trailing_window_events late_first early_transaction = [] \<and>
   claimed_contribution late_first early_transaction = 3/50 \<and>
   fst (VelocityAlgorithm_analyze 90000 aware_first next_day_transaction) = Inl TypeError \<and>
   trailing_window_events aware_first next_day_transaction = [] \<and>
   fst (VelocityAlgorithm_analyze 90000 (VelocityAlgorithm_init detector_velocity_config)
          next_day_transaction) = Inr (3/50)"
  unfolding late_first_eq aware_first_eq
  by (simp add: early_transaction_def next_day_transaction_def aware_transaction_def
      VelocityAlgorithm_analyze_def VelocityAlgorithm_init_def recent_transactions_def
      detector_velocity_config_def basic_transaction_def user_history_of_def truediv_def
      at_time_def Let_def dt_sub_def bind_res_def trailing_window_events_def
      claimed_contribution_def)


section \<open>Properties of the amount signal\<close>

lemma amount_bands_total:
  assumes "0 < suspicious_threshold cfg" "suspicious_threshold cfg < high_risk_threshold cfg"
  shows "amount_bands cfg n = Inr (amount_score cfg n)"
  using assms by (simp add: amount_score_def amount_bands_def bind_res_def truediv_def Let_def)

lemma amount_score_closed:
  assumes "0 < suspicious_threshold cfg" "suspicious_threshold cfg < high_risk_threshold cfg"
  shows "amount_score cfg n =
     (min n (suspicious_threshold cfg) / suspicious_threshold cfg) * (1/2) +
     ((max (suspicious_threshold cfg) (min n (high_risk_threshold cfg))
        - suspicious_threshold cfg)
      / (high_risk_threshold cfg - suspicious_threshold cfg)) * (1/2)"
proof -
  let ?s = "suspicious_threshold cfg" and ?h = "high_risk_threshold cfg"
  consider "?h \<le> n" | "?s \<le> n" "n < ?h" | "n < ?s" by linarith
  then show ?thesis
  proof cases
    case 1
    then have "min n ?s = ?s" "max ?s (min n ?h) = ?h" using assms by (auto simp: min_def max_def)
    moreover have "amount_score cfg n = 1"
      using 1 by (simp add: amount_score_def amount_bands_def)
    moreover have "(?h - ?s) / (?h - ?s) = 1" "?s / ?s = 1" using assms by simp_all
    ultimately show ?thesis by simp
  next
    case 2
    then have "min n ?s = ?s" "max ?s (min n ?h) = n" using assms by (auto simp: min_def max_def)
    moreover have "amount_score cfg n = 1/2 + ((n - ?s) / (?h - ?s)) * (1/2)"
      using 2 assms
      by (simp add: amount_score_def amount_bands_def bind_res_def truediv_def Let_def)
    moreover have "?s / ?s = 1" using assms by simp
    ultimately show ?thesis by simp
  next
    case 3
    then have "min n ?s = n" "max ?s (min n ?h) = ?s" using assms by (auto simp: min_def max_def)
    moreover have "amount_score cfg n = (n / ?s) * (1/2)"
      using 3 assms
      by (simp add: amount_score_def amount_bands_def bind_res_def truediv_def Let_def)
    ultimately show ?thesis by simp
  qed
qed

lemma amount_score_mono:
  assumes "0 < suspicious_threshold cfg" "suspicious_threshold cfg < high_risk_threshold cfg"
  shows "mono (amount_score cfg)"
proof (rule monoI)
  fix x y :: real
  assume xy: "x \<le> y"
  let ?s = "suspicious_threshold cfg" and ?h = "high_risk_threshold cfg"
  have 1: "min x ?s / ?s \<le> min y ?s / ?s"
    using xy assms by (intro divide_right_mono) (auto simp: min_def)
  have 2: "(max ?s (min x ?h) - ?s) / (?h - ?s) \<le> (max ?s (min y ?h) - ?s) / (?h - ?s)"
    using xy assms by (intro divide_right_mono) (auto simp: min_def max_def)
  have "min x ?s / ?s * (1/2) + (max ?s (min x ?h) - ?s) / (?h - ?s) * (1/2)
      \<le> min y ?s / ?s * (1/2) + (max ?s (min y ?h) - ?s) / (?h - ?s) * (1/2)"
    using 1 2 by (intro add_mono mult_right_mono) simp_all
  then show "amount_score cfg x \<le> amount_score cfg y"
    unfolding amount_score_closed [OF assms] .
qed

lemma amount_score_cont:
  assumes "0 < suspicious_threshold cfg" "suspicious_threshold cfg < high_risk_threshold cfg"
  shows "isCont (amount_score cfg) x"
proof -
  have "amount_score cfg = (\<lambda>n.
     (min n (suspicious_threshold cfg) / suspicious_threshold cfg) * (1/2) +
     ((max (suspicious_threshold cfg) (min n (high_risk_threshold cfg))
        - suspicious_threshold cfg)
      / (high_risk_threshold cfg - suspicious_threshold cfg)) * (1/2))"
    using amount_score_closed [OF assms] by (intro ext)
  moreover have "isCont (\<lambda>n.
     (min n (suspicious_threshold cfg) / suspicious_threshold cfg) * (1/2) +
     ((max (suspicious_threshold cfg) (min n (high_risk_threshold cfg))
        - suspicious_threshold cfg)
      / (high_risk_threshold cfg - suspicious_threshold cfg)) * (1/2)) x"
    using assms by (intro continuous_intros) auto
  ultimately show ?thesis by simp
qed

lemma amount_score_top:
  assumes "0 < suspicious_threshold cfg" "suspicious_threshold cfg < high_risk_threshold cfg"
    and "high_risk_threshold cfg \<le> n"
  shows "amount_score cfg n = 1"
  using assms by (simp add: amount_score_def amount_bands_def)

text \<open>
  C6.  For \<open>0 < suspicious_threshold < high_risk_threshold\<close> the amount signal returns a
  score for every normalized amount (amount times the currency multiplier, 1.0 for a
  currency that is not listed); as a function of the normalized amount the score is
  non-decreasing, continuous at both thresholds, and exactly 1 at and above the high-risk
  threshold.
\<close>

theorem amount_monotone_continuous:
  assumes "0 < suspicious_threshold cfg" "suspicious_threshold cfg < high_risk_threshold cfg"
  shows "(\<forall>n. amount_bands cfg n = Inr (amount_score cfg n)) \<and>
         mono (amount_score cfg) \<and>
         isCont (amount_score cfg) (suspicious_threshold cfg) \<and>
         isCont (amount_score cfg) (high_risk_threshold cfg) \<and>
         (\<forall>n. high_risk_threshold cfg \<le> n \<longrightarrow> amount_score cfg n = 1) \<and>
         (\<forall>mults tx. currency_multipliers cfg = Some mults \<longrightarrow>
            AmountAlgorithm_analyze cfg tx =
              Inr (amount_score cfg (normalized_amount_of mults tx)))"
  using amount_bands_total [OF assms] amount_score_mono [OF assms]
    amount_score_cont [OF assms] amount_score_top [OF assms]
  by (simp add: AmountAlgorithm_analyze_def)

theorem amount_monotone_continuous_witness:
  "0 < suspicious_threshold detector_amount_config \<and>
   suspicious_threshold detector_amount_config = 1000 \<and>
   high_risk_threshold detector_amount_config = 5000 \<and>
   currency high_amount_transaction = ''USD'' \<and> amount high_amount_transaction = 15000 \<and>
   normalized_amount_of [(''USD'', 1.0), (''EUR'', 1.1), (''GBP'', 1.3), (''JPY'', 0.007)]
     high_amount_transaction = 15000 \<and>
   AmountAlgorithm_analyze detector_amount_config high_amount_transaction = Inr 1 \<and>
   amount_score detector_amount_config 5000 = 1 \<and>
   amount_score detector_amount_config 1000 = 1/2 \<and>
   amount_score detector_amount_config 3000 = 3/4"
  using amount_monotone_continuous [of detector_amount_config]
  by (simp add: detector_amount_config_def high_amount_transaction_def
      basic_transaction_def amount_score_def amount_bands_def bind_res_def truediv_def
      normalized_amount_of_def)


section \<open>Properties of the location signal\<close>

lemma recent_locations_empty: "get_recent_locations st uid t = []"
  by (simp add: get_recent_locations_def hasattr_timestamp_def)

lemma location_analyze_raises:
  assumes "location tx = Some l"
  shows "\<exists>e st'. LocationAlgorithm_analyze st tx = (Inl e, st')"
  using assms
  by (simp add: LocationAlgorithm_analyze_def add_location_def Let_def
      split: sum.split option.split)

lemma location_analyze_no_fence:
  assumes "location tx = Some l" "\<not> enable_geo_fencing (loc_config st)"
  shows "fst (LocationAlgorithm_analyze st tx) = Inl TypeError"
  using assms
  by (simp add: LocationAlgorithm_analyze_def add_location_def Let_def
      recent_locations_empty history_risk_def geo_fence_def
      split: option.split)

text \<open>
  C3.  What the code does on a transaction that carries a location, for a user without
  history and again for the same user from London: the score is computed (0, since no
  stored location is ever retained), then \<open>_add_location\<close> raises \<open>TypeError\<close>.  The
  signal returns no contribution, and only the user's empty list is stored.
\<close>

theorem location_call_raises:
  "LocationAlgorithm_analyze (LocationAlgorithm_init detector_location_config)
     normal_transaction =
   (Inl TypeError,
    \<lparr>loc_config = detector_location_config, user_locations = [(''user_001'', [])]\<rparr>) \<and>
   LocationAlgorithm_analyze
     \<lparr>loc_config = detector_location_config, user_locations = [(''user_001'', [])]\<rparr>
     london_transaction =
   (Inl TypeError,
    \<lparr>loc_config = detector_location_config, user_locations = [(''user_001'', [])]\<rparr>)"
  by (simp add: LocationAlgorithm_analyze_def add_location_def Let_def
      recent_locations_empty history_risk_def geo_fence_def
      LocationAlgorithm_init_def detector_location_config_def normal_transaction_def
      london_transaction_def basic_transaction_def)


section \<open>Properties of the time signal\<close>

lemma user_pattern_risk_range:
  "0 \<le> analyze_user_time_pattern st uid p"
  by (simp add: analyze_user_time_pattern_def Let_def)

lemma user_pattern_risk_first:
  assumes "map_of (user_time_patterns st) uid = None \<or> map_of (user_time_patterns st) uid = Some []"
  shows "analyze_user_time_pattern st uid p = 1/10"
  using assms by (auto simp: analyze_user_time_pattern_def)

lemma timezone_risk_nonneg: "0 \<le> analyze_timezone_anomaly st tx p"
  by (simp add: analyze_timezone_anomaly_def split: option.split)

text \<open>
  C10.  For a user with no stored time pattern (no entry, or an empty list) the time
  signal returns a score of at least 0.1: the user-pattern component is 0.1, the
  suspicious-hour and timezone components are 0 or 0.4, and the weekend and holiday
  components are not negative when the two configured multipliers are not negative.
\<close>

theorem time_first_transaction:
  assumes "0 \<le> weekend_risk_multiplier (time_config st)"
    and "0 \<le> holiday_risk_multiplier (time_config st)"
    and "map_of (user_time_patterns st) (user_id tx) = None \<or>
         map_of (user_time_patterns st) (user_id tx) = Some []"
  shows "\<exists>s. fst (TimeAlgorithm_analyze st tx) = Inr s \<and> 1/10 \<le> s"
proof -
  let ?p = "analyze_time_pattern st (timestamp tx) tx"
  have "0 \<le> analyze_timezone_anomaly st tx ?p" by (rule timezone_risk_nonneg)
  moreover have "analyze_user_time_pattern st (user_id tx) ?p = 1/10"
    using assms(3) by (rule user_pattern_risk_first)
  moreover have "0 \<le> 0.2 * weekend_risk_multiplier (time_config st)"
    "0 \<le> 0.3 * holiday_risk_multiplier (time_config st)"
    using assms by simp_all
  ultimately show ?thesis
    by (simp add: TimeAlgorithm_analyze_def Let_def min_def)
qed


theorem time_first_transaction_witness:
  "0 \<le> weekend_risk_multiplier (time_config (TimeAlgorithm_init detector_time_config 2024)) \<and>
   0 \<le> holiday_risk_multiplier (time_config (TimeAlgorithm_init detector_time_config 2024)) \<and>
   map_of (user_time_patterns (TimeAlgorithm_init detector_time_config 2024))
     (user_id high_amount_transaction) = None \<and>
   fst (TimeAlgorithm_analyze (TimeAlgorithm_init detector_time_config 2024)
          high_amount_transaction) = Inr (1/10)"
proof -
  have a: "fst (TimeAlgorithm_analyze (TimeAlgorithm_init detector_time_config 2024)
          high_amount_transaction) = Inr (1/10)"
    by (simp add: TimeAlgorithm_analyze_def TimeAlgorithm_init_def detector_time_config_def
        high_amount_transaction_def basic_transaction_def at_time_def Let_def
        analyze_time_pattern_def analyze_user_time_pattern_def analyze_timezone_anomaly_def
        is_holiday_def initialize_holidays_def extract_timezone_def)
  show ?thesis
    using time_first_transaction [of "TimeAlgorithm_init detector_time_config 2024"
        high_amount_transaction] a
    by (simp add: TimeAlgorithm_init_def detector_time_config_def)
qed


section \<open>Properties of the device signal\<close>

lemma users_of_alist:
  "distinct (map fst al) \<Longrightarrow>
   set (map fst (filter (\<lambda>(uid, devices). d \<in> devices) al)) =
     {u. \<exists>ds. map_of al u = Some ds \<and> d \<in> ds}"
  by (induction al) (auto simp: image_iff)

lemma device_users_map_of:
  assumes "distinct (map fst (user_devices st))"
  shows "get_device_users st d = {u. \<exists>ds. map_of (user_devices st) u = Some ds \<and> d \<in> ds}"
  unfolding get_device_users_def using users_of_alist [OF assms] .

lemma velocity_and_sharing_state: "snd (velocity_and_sharing env st d u r) = st"
  by (simp add: velocity_and_sharing_def Let_def split: sum.split)

lemma analyze_state_cases:
  "snd (DeviceAlgorithm_analyze env st tx) = st \<or>
   (\<exists>d. map_of (device_fingerprints st) d = None \<and>
      snd (DeviceAlgorithm_analyze env st tx) =
        add_user_device
          (st\<lparr>device_fingerprints :=
                AList.update d (create_fingerprint env tx d) (device_fingerprints st)\<rparr>)
          (user_id tx) d) \<or>
   (\<exists>d fp. map_of (device_fingerprints st) d = Some fp \<and>
      snd (DeviceAlgorithm_analyze env st tx) = update_device_fingerprint env st d tx)"
  by (auto simp: DeviceAlgorithm_analyze_def Let_def velocity_and_sharing_state
      split: sum.split option.split)

lemma get_device_users_fps_update:
  "get_device_users (st\<lparr>device_fingerprints := f\<rparr>) d = get_device_users st d"
  by (simp add: get_device_users_def)

lemma inv_known:
  assumes "device_inv st" "map_of (device_fingerprints st) d = Some fp"
  shows "device_inv (update_device_fingerprint env st d tx)"
proof -
  have "(map_of (AList.update d v (device_fingerprints st)) d' = None) =
        (map_of (device_fingerprints st) d' = None)" for v d'
    using assms(2) by (simp add: update_conv')
  then show ?thesis
    using assms
    by (simp add: device_inv_def update_device_fingerprint_def get_device_users_def)
qed

lemma inv_new:
  assumes "device_inv st" "map_of (device_fingerprints st) d = None"
  shows "device_inv (add_user_device
          (st\<lparr>device_fingerprints := AList.update d fp (device_fingerprints st)\<rparr>) u d)"
proof -
  let ?old = "case map_of (user_devices st) u of None \<Rightarrow> {} | Some ds \<Rightarrow> ds"
  let ?ud = "AList.update u (insert d ?old) (user_devices st)"
  let ?st = "add_user_device
          (st\<lparr>device_fingerprints := AList.update d fp (device_fingerprints st)\<rparr>) u d"
  have dist: "distinct (map fst (user_devices st))" using assms(1) by (simp add: device_inv_def)
  have ud: "user_devices ?st = ?ud" by (simp add: add_user_device_def)
  have dist': "distinct (map fst ?ud)" using dist by (rule distinct_update)
  have users: "get_device_users st d' = {u'. \<exists>ds. map_of (user_devices st) u' = Some ds \<and> d' \<in> ds}"
    for d' using device_users_map_of [OF dist] .
  have users': "get_device_users ?st d' = {u'. \<exists>ds. map_of ?ud u' = Some ds \<and> d' \<in> ds}"
    for d' using device_users_map_of [of ?st d'] dist' ud by simp
  have "card (get_device_users st d) = 0" using assms by (simp add: device_inv_def)
  then have empty: "get_device_users st d = {}" by (simp add: get_device_users_def)
  have same: "get_device_users ?st d' = get_device_users st d'" if "d' \<noteq> d" for d'
    unfolding users users' using that
    by (auto simp: update_conv' split: option.splits if_splits)
  have new: "get_device_users ?st d = {u}"
  proof -
    have "get_device_users ?st d = insert u (get_device_users st d)"
      unfolding users users' by (auto simp: update_conv' split: option.splits if_splits)
    then show ?thesis using empty by simp
  qed
  have fps: "(map_of (device_fingerprints ?st) d' = None) =
             (d' \<noteq> d \<and> map_of (device_fingerprints st) d' = None)" for d'
    by (simp add: add_user_device_def update_conv')
  have "card (get_device_users ?st d') =
             (if map_of (device_fingerprints ?st) d' = None then 0 else 1)" for d'
  proof (cases "d' = d")
    case True
    then show ?thesis using new fps by simp
  next
    case False
    then show ?thesis using same [OF False] fps assms(1) by (simp add: device_inv_def)
  qed
  then show ?thesis using dist' ud unfolding device_inv_def by simp
qed

lemma inv_analyze:
  assumes "device_inv st"
  shows "device_inv (snd (DeviceAlgorithm_analyze env st tx))"
  using analyze_state_cases [of env st tx] assms inv_known inv_new by metis

lemma inv_init: "device_inv (DeviceAlgorithm_init cfg)"
  by (simp add: device_inv_def DeviceAlgorithm_init_def get_device_users_def)

lemma inv_run:
  "device_inv st \<Longrightarrow> device_inv (run_device st calls)"
  unfolding run_device_def
  by (induction calls arbitrary: st) (auto simp: inv_analyze)

lemma analyze_known_state:
  assumes "map_of (device_fingerprints st) d = Some fp" "device_id tx = Some d" "d \<noteq> []"
  shows "snd (DeviceAlgorithm_analyze env st tx) = update_device_fingerprint env st d tx"
  using assms
  by (simp add: DeviceAlgorithm_analyze_def Let_def velocity_and_sharing_state truthy_def
      or_else_def)

lemma after_first_user_eq:
  "after_first_user =
     \<lparr>dev_config = detector_device_config,
      device_fingerprints =
        [(''shared_device'',
          \<lparr>fp_device_id = ''shared_device'', fp_user_agent = ''Mozilla/5.0...'',
           fp_ip_address = ''192.168.1.1'', fp_screen_resolution = None,
           fp_timezone = None, fp_language = None, fp_platform = None,
           fp_first_seen = Some 0, fp_last_seen = Some 0, fp_transaction_count = 1,
           fp_total_amount = 100, fp_is_trusted = False\<rparr>)],
      user_devices = [(''user_001'', {''shared_device''})]\<rparr>"
  by (simp add: after_first_user_def run_device_def DeviceAlgorithm_analyze_def
      DeviceAlgorithm_init_def device_transaction_def basic_transaction_def clock_def
      truthy_def or_else_def create_fingerprint_def metadata_get_def Let_def
      velocity_and_sharing_state add_user_device_def)

lemmas device_eval =
  DeviceAlgorithm_analyze_def device_transaction_def basic_transaction_def clock_def
  truthy_def or_else_def create_fingerprint_def metadata_get_def Let_def
  velocity_and_sharing_def calculate_device_velocity_def calculate_device_risk_def
  calculate_device_sharing_risk_def get_device_users_def update_device_fingerprint_def
  detector_device_config_def truediv_def

text \<open>
  C7.  The two-user scenario on the code.  User \<open>user_001\<close> uses the device first.  When
  \<open>user_002\<close> then uses it two hours later, the contribution is 0.  When \<open>user_002\<close> uses
  it two seconds later the contribution is 0.6, made of the rapid-switching risk 0.2 and
  the velocity risk 0.4, and the same call made by \<open>user_001\<close>, for whom the device is
  not shared, scores 0.6 as well: the sharing risk adds nothing.
\<close>

theorem second_user_scores:
  "fst (DeviceAlgorithm_analyze (clock 7200 0) after_first_user
          (device_transaction ''tx_002'' ''user_002'' 200 7200)) = Inr 0 \<and>
   fst (DeviceAlgorithm_analyze (clock 2 (1/1000)) after_first_user
          (device_transaction ''tx_002'' ''user_002'' 200 2)) = Inr (3/5) \<and>
   fst (DeviceAlgorithm_analyze (clock 2 (1/1000)) after_first_user
          (device_transaction ''tx_002'' ''user_001'' 200 2)) = Inr (3/5)"
  unfolding after_first_user_eq by (simp add: device_eval)

text \<open>
  C9.  In every state the device signal reaches from its initial state, a call on a
  device that already has a fingerprint leaves \<open>user_devices\<close> as it is: the device is
  not added to the set of the calling user.  The users computed for the device are the
  same as before, exactly one, and the sharing risk of the call is 0.
\<close>

theorem known_device_second_user:
  assumes "st = run_device (DeviceAlgorithm_init cfg) calls"
    and "map_of (device_fingerprints st) d = Some fp"
    and "device_id tx = Some d" and "d \<noteq> []"
  shows "user_devices (snd (DeviceAlgorithm_analyze env st tx)) = user_devices st \<and>
         get_device_users (snd (DeviceAlgorithm_analyze env st tx)) d = get_device_users st d \<and>
         card (get_device_users (snd (DeviceAlgorithm_analyze env st tx)) d) = 1 \<and>
         calculate_device_sharing_risk (snd (DeviceAlgorithm_analyze env st tx)) d (user_id tx)
           = 0"
proof -
  let ?st' = "snd (DeviceAlgorithm_analyze env st tx)"
  have s: "?st' = update_device_fingerprint env st d tx"
    using assms(2-4) by (rule analyze_known_state)
  have ud: "user_devices ?st' = user_devices st"
    unfolding s using assms(2) by (simp add: update_device_fingerprint_def)
  then have same: "get_device_users ?st' d = get_device_users st d"
    by (simp add: get_device_users_def)
  have "device_inv st" unfolding assms(1) by (rule inv_run [OF inv_init])
  then have "card (get_device_users st d) = 1" using assms(2) by (simp add: device_inv_def)
  then show ?thesis using ud same by (simp add: calculate_device_sharing_risk_def)
qed

theorem known_device_second_user_witness:
  "after_first_user =
     run_device (DeviceAlgorithm_init detector_device_config)
       [(clock 0 (1/1000), device_transaction ''tx_001'' ''user_001'' 100 0)] \<and>
   map_of (device_fingerprints after_first_user) ''shared_device'' \<noteq> None \<and>
   device_id (device_transaction ''tx_002'' ''user_002'' 200 7200) = Some ''shared_device'' \<and>
   user_devices (snd (DeviceAlgorithm_analyze (clock 7200 0) after_first_user
                        (device_transaction ''tx_002'' ''user_002'' 200 7200)))
     = [(''user_001'', {''shared_device''})] \<and>
   get_device_users (snd (DeviceAlgorithm_analyze (clock 7200 0) after_first_user
                            (device_transaction ''tx_002'' ''user_002'' 200 7200)))
     ''shared_device'' = {''user_001''} \<and>
   calculate_device_sharing_risk
     (snd (DeviceAlgorithm_analyze (clock 7200 0) after_first_user
             (device_transaction ''tx_002'' ''user_002'' 200 7200)))
     ''shared_device'' ''user_002'' = 0"
proof -
  have k: "map_of (device_fingerprints after_first_user) ''shared_device'' =
      Some \<lparr>fp_device_id = ''shared_device'', fp_user_agent = ''Mozilla/5.0...'',
           fp_ip_address = ''192.168.1.1'', fp_screen_resolution = None,
           fp_timezone = None, fp_language = None, fp_platform = None,
           fp_first_seen = Some 0, fp_last_seen = Some 0, fp_transaction_count = 1,
           fp_total_amount = 100, fp_is_trusted = False\<rparr>"
    by (simp add: after_first_user_eq)
  have d: "device_id (device_transaction ''tx_002'' ''user_002'' 200 7200) = Some ''shared_device''"
    by (simp add: device_transaction_def)
  have u: "user_devices after_first_user = [(''user_001'', {''shared_device''})]"
    "get_device_users after_first_user ''shared_device'' = {''user_001''}"
    by (simp_all add: after_first_user_eq get_device_users_def)
  have i: "user_id (device_transaction ''tx_002'' ''user_002'' 200 7200) = ''user_002''"
    by (simp add: device_transaction_def basic_transaction_def)
  show ?thesis
    using known_device_second_user [OF after_first_user_def k d, of "clock 7200 0"] k d u i
      after_first_user_def
    by simp
qed


end
